theory Spec2Isabelle
  imports Main "HOL-Library.Word"
begin

unbundle bit_operations_syntax

section \<open>C types and constants (types.h, errno.h)\<close>

text \<open>
  A C \<open>int\<close> that carries an enumeration value is a 32-bit word, so that every value a
  caller can pass (also one outside the enumeration) is an input of the model;
  \<open>sint\<close> reads it.  \<open>upisnd_pin_t\<close> is \<open>int8_t\<close>, \<open>upisnd_setup_t\<close> is \<open>uint32_t\<close>.
  Status results (\<open>0\<close>, \<open>-EINVAL\<close>, \<open>-1\<close>) and \<open>errno\<close> are mathematical integers.
\<close>

type_synonym upisnd_setup_t = "32 word"
type_synonym upisnd_pin_t = "8 word"
type_synonym upisnd_element_type_e = "32 word"
type_synonym upisnd_pin_pull_e = "32 word"
type_synonym upisnd_pin_direction_e = "32 word"
type_synonym upisnd_activity_e = "32 word"

named_theorems upisnd_consts \<open>values of the enumerators and errno codes\<close>

definition ENOENT :: int where [upisnd_consts]: "ENOENT = 2"
definition ENOMEM :: int where [upisnd_consts]: "ENOMEM = 12"
definition EACCES :: int where [upisnd_consts]: "EACCES = 13"
definition EEXIST :: int where [upisnd_consts]: "EEXIST = 17"
definition EINVAL :: int where [upisnd_consts]: "EINVAL = 22"
definition ENAMETOOLONG :: int where [upisnd_consts]: "ENAMETOOLONG = 36"
definition ETIMEDOUT :: int where [upisnd_consts]: "ETIMEDOUT = 110"

definition INT_MAX :: int where "INT_MAX = 2147483647"

definition UPISND_MAX_ELEMENT_NAME_LENGTH :: int where
  [upisnd_consts]: "UPISND_MAX_ELEMENT_NAME_LENGTH = 64"

definition UPISND_ELEMENT_TYPE_INVALID :: upisnd_element_type_e where
  [upisnd_consts]: "UPISND_ELEMENT_TYPE_INVALID = - 1"
definition UPISND_ELEMENT_TYPE_NONE :: upisnd_element_type_e where
  [upisnd_consts]: "UPISND_ELEMENT_TYPE_NONE = 0"
definition UPISND_ELEMENT_TYPE_ENCODER :: upisnd_element_type_e where
  [upisnd_consts]: "UPISND_ELEMENT_TYPE_ENCODER = 1"
definition UPISND_ELEMENT_TYPE_ANALOG_INPUT :: upisnd_element_type_e where
  [upisnd_consts]: "UPISND_ELEMENT_TYPE_ANALOG_INPUT = 2"
definition UPISND_ELEMENT_TYPE_GPIO :: upisnd_element_type_e where
  [upisnd_consts]: "UPISND_ELEMENT_TYPE_GPIO = 3"
definition UPISND_ELEMENT_TYPE_ACTIVITY :: upisnd_element_type_e where
  [upisnd_consts]: "UPISND_ELEMENT_TYPE_ACTIVITY = 4"
definition UPISND_ELEMENT_TYPE_COUNT :: upisnd_element_type_e where
  [upisnd_consts]: "UPISND_ELEMENT_TYPE_COUNT = 5"

definition UPISND_ACTIVITY_INVALID :: upisnd_activity_e where
  [upisnd_consts]: "UPISND_ACTIVITY_INVALID = - 1"
definition UPISND_ACTIVITY_MIDI_INPUT :: upisnd_activity_e where
  [upisnd_consts]: "UPISND_ACTIVITY_MIDI_INPUT = 0"
definition UPISND_ACTIVITY_MIDI_OUTPUT :: upisnd_activity_e where
  [upisnd_consts]: "UPISND_ACTIVITY_MIDI_OUTPUT = 1"
definition UPISND_ACTIVITY_COUNT :: upisnd_activity_e where
  [upisnd_consts]: "UPISND_ACTIVITY_COUNT = 2"

definition UPISND_PIN_PULL_INVALID :: upisnd_pin_pull_e where
  [upisnd_consts]: "UPISND_PIN_PULL_INVALID = - 1"
definition UPISND_PIN_PULL_UP :: upisnd_pin_pull_e where
  [upisnd_consts]: "UPISND_PIN_PULL_UP = 1"
definition UPISND_PIN_PULL_DOWN :: upisnd_pin_pull_e where
  [upisnd_consts]: "UPISND_PIN_PULL_DOWN = 2"
definition UPISND_PIN_PULL_COUNT :: upisnd_pin_pull_e where
  [upisnd_consts]: "UPISND_PIN_PULL_COUNT = 3"

definition UPISND_PIN_DIR_INVALID :: upisnd_pin_direction_e where
  [upisnd_consts]: "UPISND_PIN_DIR_INVALID = - 1"
definition UPISND_PIN_DIR_INPUT :: upisnd_pin_direction_e where
  [upisnd_consts]: "UPISND_PIN_DIR_INPUT = 0"
definition UPISND_PIN_DIR_OUTPUT :: upisnd_pin_direction_e where
  [upisnd_consts]: "UPISND_PIN_DIR_OUTPUT = 1"
definition UPISND_PIN_DIR_COUNT :: upisnd_pin_direction_e where
  [upisnd_consts]: "UPISND_PIN_DIR_COUNT = 2"

definition UPISND_PIN_B03 :: upisnd_pin_t where [upisnd_consts]: "UPISND_PIN_B03 = 6"
definition UPISND_PIN_B04 :: upisnd_pin_t where [upisnd_consts]: "UPISND_PIN_B04 = 7"
definition UPISND_PIN_COUNT :: upisnd_pin_t where [upisnd_consts]: "UPISND_PIN_COUNT = 37"
definition UPISND_PIN_INVALID :: upisnd_pin_t where [upisnd_consts]: "UPISND_PIN_INVALID = 37"


section \<open>Setup descriptor codec (pisound-micro.c, lines 789 to 952)\<close>

text \<open>
  \<open>UPISND_DEFINE_INTERNAL_SETUP_FIELD(shift, bits, type, name)\<close>: the getter is
  \<open>(type)((setup & (((1 << bits)-1) << shift)) >> shift)\<close>, the setter stores
  \<open>(setup & ~(((1 << bits)-1) << shift)) | ((value & ((1 << bits)-1)) << shift)\<close>.
  The two functions below are the macro body before the cast to \<open>type\<close>.
\<close>

definition field_mask :: "nat \<Rightarrow> nat \<Rightarrow> 32 word" where
  "field_mask shift bits = push_bit shift (push_bit bits 1 - 1)"

definition field_get :: "nat \<Rightarrow> nat \<Rightarrow> upisnd_setup_t \<Rightarrow> 32 word" where
  "field_get shift bits setup = drop_bit shift (setup AND field_mask shift bits)"

definition field_set :: "nat \<Rightarrow> nat \<Rightarrow> upisnd_setup_t \<Rightarrow> 32 word \<Rightarrow> upisnd_setup_t" where
  "field_set shift bits setup v =
     (setup AND NOT (field_mask shift bits)) OR push_bit shift (v AND (push_bit bits 1 - 1))"

text \<open>The eight instances of the macro, with the cast of each field type.\<close>

definition upisnd_internal_setup_get_element_type :: "upisnd_setup_t \<Rightarrow> upisnd_element_type_e" where
  "upisnd_internal_setup_get_element_type setup = field_get 0 3 setup"

definition upisnd_internal_setup_set_element_type ::
  "upisnd_setup_t \<Rightarrow> upisnd_element_type_e \<Rightarrow> upisnd_setup_t" where
  "upisnd_internal_setup_set_element_type setup v = field_set 0 3 setup v"

definition upisnd_internal_setup_get_pin_id :: "upisnd_setup_t \<Rightarrow> upisnd_pin_t" where
  "upisnd_internal_setup_get_pin_id setup = ucast (field_get 3 8 setup)"

definition upisnd_internal_setup_set_pin_id :: "upisnd_setup_t \<Rightarrow> upisnd_pin_t \<Rightarrow> upisnd_setup_t" where
  "upisnd_internal_setup_set_pin_id setup v = field_set 3 8 setup (scast v)"

definition upisnd_internal_setup_get_gpio_pull :: "upisnd_setup_t \<Rightarrow> upisnd_pin_pull_e" where
  "upisnd_internal_setup_get_gpio_pull setup = field_get 11 2 setup"

definition upisnd_internal_setup_set_gpio_pull ::
  "upisnd_setup_t \<Rightarrow> upisnd_pin_pull_e \<Rightarrow> upisnd_setup_t" where
  "upisnd_internal_setup_set_gpio_pull setup v = field_set 11 2 setup v"

definition upisnd_internal_setup_get_gpio_dir :: "upisnd_setup_t \<Rightarrow> upisnd_pin_direction_e" where
  "upisnd_internal_setup_get_gpio_dir setup = field_get 13 1 setup"

definition upisnd_internal_setup_set_gpio_dir ::
  "upisnd_setup_t \<Rightarrow> upisnd_pin_direction_e \<Rightarrow> upisnd_setup_t" where
  "upisnd_internal_setup_set_gpio_dir setup v = field_set 13 1 setup v"

definition upisnd_internal_setup_get_gpio_output :: "upisnd_setup_t \<Rightarrow> bool" where
  "upisnd_internal_setup_get_gpio_output setup = (field_get 12 1 setup \<noteq> 0)"

definition upisnd_internal_setup_set_gpio_output :: "upisnd_setup_t \<Rightarrow> bool \<Rightarrow> upisnd_setup_t" where
  "upisnd_internal_setup_set_gpio_output setup v = field_set 12 1 setup (if v then 1 else 0)"

definition upisnd_internal_setup_get_encoder_pin_b_id :: "upisnd_setup_t \<Rightarrow> upisnd_pin_t" where
  "upisnd_internal_setup_get_encoder_pin_b_id setup = ucast (field_get 13 8 setup)"

definition upisnd_internal_setup_set_encoder_pin_b_id ::
  "upisnd_setup_t \<Rightarrow> upisnd_pin_t \<Rightarrow> upisnd_setup_t" where
  "upisnd_internal_setup_set_encoder_pin_b_id setup v = field_set 13 8 setup (scast v)"

definition upisnd_internal_setup_get_encoder_pin_b_pull :: "upisnd_setup_t \<Rightarrow> upisnd_pin_pull_e" where
  "upisnd_internal_setup_get_encoder_pin_b_pull setup = field_get 21 2 setup"

definition upisnd_internal_setup_set_encoder_pin_b_pull ::
  "upisnd_setup_t \<Rightarrow> upisnd_pin_pull_e \<Rightarrow> upisnd_setup_t" where
  "upisnd_internal_setup_set_encoder_pin_b_pull setup v = field_set 21 2 setup v"

definition upisnd_internal_setup_get_activity_type :: "upisnd_setup_t \<Rightarrow> upisnd_activity_e" where
  "upisnd_internal_setup_get_activity_type setup = field_get 11 2 setup"

definition upisnd_internal_setup_set_activity_type ::
  "upisnd_setup_t \<Rightarrow> upisnd_activity_e \<Rightarrow> upisnd_setup_t" where
  "upisnd_internal_setup_set_activity_type setup v = field_set 11 2 setup v"

named_theorems internal_field_defs \<open>the instances of the field macro\<close>

lemmas [internal_field_defs] =
  upisnd_internal_setup_get_element_type_def upisnd_internal_setup_set_element_type_def
  upisnd_internal_setup_get_pin_id_def upisnd_internal_setup_set_pin_id_def
  upisnd_internal_setup_get_gpio_pull_def upisnd_internal_setup_set_gpio_pull_def
  upisnd_internal_setup_get_gpio_dir_def upisnd_internal_setup_set_gpio_dir_def
  upisnd_internal_setup_get_gpio_output_def upisnd_internal_setup_set_gpio_output_def
  upisnd_internal_setup_get_encoder_pin_b_id_def upisnd_internal_setup_set_encoder_pin_b_id_def
  upisnd_internal_setup_get_encoder_pin_b_pull_def upisnd_internal_setup_set_encoder_pin_b_pull_def
  upisnd_internal_setup_get_activity_type_def upisnd_internal_setup_set_activity_type_def

subsection \<open>Public getters\<close>

definition upisnd_setup_get_element_type :: "upisnd_setup_t \<Rightarrow> upisnd_element_type_e" where
  "upisnd_setup_get_element_type setup = upisnd_internal_setup_get_element_type setup"

definition upisnd_setup_get_pin_id :: "upisnd_setup_t \<Rightarrow> upisnd_pin_t" where
  "upisnd_setup_get_pin_id setup =
     (let t = upisnd_internal_setup_get_element_type setup in
      if t = UPISND_ELEMENT_TYPE_ENCODER \<or> t = UPISND_ELEMENT_TYPE_ANALOG_INPUT
         \<or> t = UPISND_ELEMENT_TYPE_GPIO \<or> t = UPISND_ELEMENT_TYPE_ACTIVITY
      then upisnd_internal_setup_get_pin_id setup
      else UPISND_PIN_INVALID)"

definition upisnd_setup_get_gpio_pull :: "upisnd_setup_t \<Rightarrow> upisnd_pin_pull_e" where
  "upisnd_setup_get_gpio_pull setup =
     (let t = upisnd_internal_setup_get_element_type setup in
      if t = UPISND_ELEMENT_TYPE_ENCODER then upisnd_internal_setup_get_gpio_pull setup
      else if t = UPISND_ELEMENT_TYPE_GPIO then
        (if upisnd_internal_setup_get_gpio_dir setup = UPISND_PIN_DIR_INPUT
         then upisnd_internal_setup_get_gpio_pull setup
         else UPISND_PIN_PULL_INVALID)
      else UPISND_PIN_PULL_INVALID)"

definition upisnd_setup_get_gpio_dir :: "upisnd_setup_t \<Rightarrow> upisnd_pin_direction_e" where
  "upisnd_setup_get_gpio_dir setup =
     (if upisnd_internal_setup_get_element_type setup = UPISND_ELEMENT_TYPE_GPIO
      then upisnd_internal_setup_get_gpio_dir setup
      else UPISND_PIN_DIR_INVALID)"

definition upisnd_setup_get_gpio_output :: "upisnd_setup_t \<Rightarrow> int" where
  "upisnd_setup_get_gpio_output setup =
     (if upisnd_internal_setup_get_element_type setup = UPISND_ELEMENT_TYPE_GPIO
         \<and> upisnd_internal_setup_get_gpio_dir setup = UPISND_PIN_DIR_OUTPUT
      then (if upisnd_internal_setup_get_gpio_output setup then 1 else 0)
      else - EINVAL)"

definition upisnd_setup_get_encoder_pin_b_id :: "upisnd_setup_t \<Rightarrow> upisnd_pin_t" where
  "upisnd_setup_get_encoder_pin_b_id setup =
     (if upisnd_internal_setup_get_element_type setup = UPISND_ELEMENT_TYPE_ENCODER
      then upisnd_internal_setup_get_encoder_pin_b_id setup
      else UPISND_PIN_INVALID)"

definition upisnd_setup_get_encoder_pin_b_pull :: "upisnd_setup_t \<Rightarrow> upisnd_pin_pull_e" where
  "upisnd_setup_get_encoder_pin_b_pull setup =
     (if upisnd_internal_setup_get_element_type setup = UPISND_ELEMENT_TYPE_ENCODER
      then upisnd_internal_setup_get_encoder_pin_b_pull setup
      else UPISND_PIN_PULL_INVALID)"

definition upisnd_setup_get_activity_type :: "upisnd_setup_t \<Rightarrow> upisnd_activity_e" where
  "upisnd_setup_get_activity_type setup =
     (if upisnd_internal_setup_get_element_type setup = UPISND_ELEMENT_TYPE_ACTIVITY
      then upisnd_internal_setup_get_activity_type setup
      else UPISND_ACTIVITY_INVALID)"

subsection \<open>Public setters\<close>

text \<open>
  A setter takes the descriptor the pointer refers to and returns the status together with
  the descriptor afterwards.  \<open>memset(setup, 0, sizeof( *setup))\<close> is the descriptor \<open>0\<close>.
\<close>

definition upisnd_setup_set_element_type ::
  "upisnd_setup_t \<Rightarrow> upisnd_element_type_e \<Rightarrow> int \<times> upisnd_setup_t" where
  "upisnd_setup_set_element_type setup v =
     (if sint v < 0 \<or> sint v \<ge> sint UPISND_ELEMENT_TYPE_COUNT then (- EINVAL, setup)
      else (0, upisnd_internal_setup_set_element_type 0 v))"

definition upisnd_setup_set_pin_id :: "upisnd_setup_t \<Rightarrow> upisnd_pin_t \<Rightarrow> int \<times> upisnd_setup_t" where
  "upisnd_setup_set_pin_id setup v =
     (let t = upisnd_internal_setup_get_element_type setup in
      if t = UPISND_ELEMENT_TYPE_ENCODER \<or> t = UPISND_ELEMENT_TYPE_ANALOG_INPUT
         \<or> t = UPISND_ELEMENT_TYPE_GPIO \<or> t = UPISND_ELEMENT_TYPE_ACTIVITY
      then (0, upisnd_internal_setup_set_pin_id setup v)
      else (- EINVAL, setup))"

definition upisnd_setup_set_gpio_dir ::
  "upisnd_setup_t \<Rightarrow> upisnd_pin_direction_e \<Rightarrow> int \<times> upisnd_setup_t" where
  "upisnd_setup_set_gpio_dir setup v =
     (if upisnd_internal_setup_get_element_type setup \<noteq> UPISND_ELEMENT_TYPE_GPIO
      then (- EINVAL, setup)
      else (0, upisnd_internal_setup_set_gpio_dir setup v))"

definition upisnd_setup_set_gpio_pull ::
  "upisnd_setup_t \<Rightarrow> upisnd_pin_pull_e \<Rightarrow> int \<times> upisnd_setup_t" where
  "upisnd_setup_set_gpio_pull setup v =
     (let t = upisnd_internal_setup_get_element_type setup in
      if t = UPISND_ELEMENT_TYPE_ENCODER then (0, upisnd_internal_setup_set_gpio_pull setup v)
      else if t = UPISND_ELEMENT_TYPE_GPIO then
        (if upisnd_internal_setup_get_gpio_dir setup = UPISND_PIN_DIR_INPUT
         then (0, upisnd_internal_setup_set_gpio_pull setup v)
         else (- EINVAL, setup))
      else (- EINVAL, setup))"

definition upisnd_setup_set_gpio_output :: "upisnd_setup_t \<Rightarrow> bool \<Rightarrow> int \<times> upisnd_setup_t" where
  "upisnd_setup_set_gpio_output setup v =
     (if upisnd_internal_setup_get_element_type setup \<noteq> UPISND_ELEMENT_TYPE_GPIO
         \<or> upisnd_internal_setup_get_gpio_dir setup \<noteq> UPISND_PIN_DIR_OUTPUT
      then (- EINVAL, setup)
      else (0, upisnd_internal_setup_set_gpio_output setup v))"

definition upisnd_setup_set_encoder_pin_b_id ::
  "upisnd_setup_t \<Rightarrow> upisnd_pin_t \<Rightarrow> int \<times> upisnd_setup_t" where
  "upisnd_setup_set_encoder_pin_b_id setup v =
     (if upisnd_internal_setup_get_element_type setup \<noteq> UPISND_ELEMENT_TYPE_ENCODER
      then (- EINVAL, setup)
      else (0, upisnd_internal_setup_set_encoder_pin_b_id setup v))"

definition upisnd_setup_set_encoder_pin_b_pull ::
  "upisnd_setup_t \<Rightarrow> upisnd_pin_pull_e \<Rightarrow> int \<times> upisnd_setup_t" where
  "upisnd_setup_set_encoder_pin_b_pull setup v =
     (if upisnd_internal_setup_get_element_type setup \<noteq> UPISND_ELEMENT_TYPE_ENCODER
      then (- EINVAL, setup)
      else (0, upisnd_internal_setup_set_encoder_pin_b_pull setup v))"

definition upisnd_setup_set_activity_type ::
  "upisnd_setup_t \<Rightarrow> upisnd_activity_e \<Rightarrow> int \<times> upisnd_setup_t" where
  "upisnd_setup_set_activity_type setup v =
     (if upisnd_internal_setup_get_element_type setup \<noteq> UPISND_ELEMENT_TYPE_ACTIVITY
      then (- EINVAL, setup)
      else (0, upisnd_internal_setup_set_activity_type setup v))"

named_theorems setup_accessor_defs \<open>the public getters and setters of the descriptor\<close>

lemmas [setup_accessor_defs] =
  upisnd_setup_get_element_type_def upisnd_setup_get_pin_id_def upisnd_setup_get_gpio_pull_def
  upisnd_setup_get_gpio_dir_def upisnd_setup_get_gpio_output_def
  upisnd_setup_get_encoder_pin_b_id_def upisnd_setup_get_encoder_pin_b_pull_def
  upisnd_setup_get_activity_type_def
  upisnd_setup_set_element_type_def upisnd_setup_set_pin_id_def upisnd_setup_set_gpio_dir_def
  upisnd_setup_set_gpio_pull_def upisnd_setup_set_gpio_output_def
  upisnd_setup_set_encoder_pin_b_id_def upisnd_setup_set_encoder_pin_b_pull_def
  upisnd_setup_set_activity_type_def

text \<open>
  Which field belongs to which element type, as the descriptor's data model and the
  comments of api.h give it: the main pin id to every real element type, the pull to
  encoders (first pin) and GPIO inputs, the direction to GPIOs, the output level to GPIO
  outputs, the second pin and its pull to encoders, the activity kind to activity elements.
\<close>

datatype setup_field =
  Pin_id | Gpio_pull | Gpio_dir | Gpio_output | Encoder_pin_b_id | Encoder_pin_b_pull
  | Activity_type

definition is_gpio_with_dir :: "upisnd_pin_direction_e \<Rightarrow> upisnd_setup_t \<Rightarrow> bool" where
  "is_gpio_with_dir d setup \<longleftrightarrow>
     upisnd_setup_get_element_type setup = UPISND_ELEMENT_TYPE_GPIO
     \<and> upisnd_setup_get_gpio_dir setup = d"

fun field_applies :: "setup_field \<Rightarrow> upisnd_setup_t \<Rightarrow> bool" where
  "field_applies Pin_id setup =
     (upisnd_setup_get_element_type setup \<in>
        {UPISND_ELEMENT_TYPE_ENCODER, UPISND_ELEMENT_TYPE_ANALOG_INPUT,
         UPISND_ELEMENT_TYPE_GPIO, UPISND_ELEMENT_TYPE_ACTIVITY})"
| "field_applies Gpio_pull setup =
     (upisnd_setup_get_element_type setup = UPISND_ELEMENT_TYPE_ENCODER
      \<or> is_gpio_with_dir UPISND_PIN_DIR_INPUT setup)"
| "field_applies Gpio_dir setup =
     (upisnd_setup_get_element_type setup = UPISND_ELEMENT_TYPE_GPIO)"
| "field_applies Gpio_output setup = is_gpio_with_dir UPISND_PIN_DIR_OUTPUT setup"
| "field_applies Encoder_pin_b_id setup =
     (upisnd_setup_get_element_type setup = UPISND_ELEMENT_TYPE_ENCODER)"
| "field_applies Encoder_pin_b_pull setup =
     (upisnd_setup_get_element_type setup = UPISND_ELEMENT_TYPE_ENCODER)"
| "field_applies Activity_type setup =
     (upisnd_setup_get_element_type setup = UPISND_ELEMENT_TYPE_ACTIVITY)"

text \<open>The values of each closed enumeration, and the pin ids 0 to 36.\<close>

definition valid_pin :: "upisnd_pin_t \<Rightarrow> bool" where
  "valid_pin p \<longleftrightarrow> 0 \<le> sint p \<and> sint p < sint UPISND_PIN_COUNT"

definition valid_pull :: "upisnd_pin_pull_e \<Rightarrow> bool" where
  "valid_pull v \<longleftrightarrow> 0 \<le> sint v \<and> sint v < sint UPISND_PIN_PULL_COUNT"

definition valid_dir :: "upisnd_pin_direction_e \<Rightarrow> bool" where
  "valid_dir v \<longleftrightarrow> 0 \<le> sint v \<and> sint v < sint UPISND_PIN_DIR_COUNT"

definition valid_activity :: "upisnd_activity_e \<Rightarrow> bool" where
  "valid_activity v \<longleftrightarrow> 0 \<le> sint v \<and> sint v < sint UPISND_ACTIVITY_COUNT"

definition real_element_type :: "upisnd_element_type_e \<Rightarrow> bool" where
  "real_element_type t \<longleftrightarrow>
     t \<in> {UPISND_ELEMENT_TYPE_ENCODER, UPISND_ELEMENT_TYPE_ANALOG_INPUT,
          UPISND_ELEMENT_TYPE_GPIO, UPISND_ELEMENT_TYPE_ACTIVITY}"


text \<open>
  Helpers to state properties of the codec: the descriptor after \<open>set_type\<close>, a setter
  followed by its getter, and what it means that a setter's result has the low \<open>bits\<close>
  bits of a value in its field and every other bit as before.
\<close>

definition with_type :: "upisnd_setup_t \<Rightarrow> upisnd_element_type_e \<Rightarrow> upisnd_setup_t" where
  "with_type s0 t = snd (upisnd_setup_set_element_type s0 t)"

definition set_then_get ::
  "(upisnd_setup_t \<Rightarrow> 'v \<Rightarrow> int \<times> upisnd_setup_t) \<Rightarrow> (upisnd_setup_t \<Rightarrow> 'r)
     \<Rightarrow> upisnd_setup_t \<Rightarrow> 'v \<Rightarrow> int \<times> 'r" where
  "set_then_get setter getter s v = (fst (setter s v), getter (snd (setter s v)))"

definition stores_masked ::
  "nat \<Rightarrow> nat \<Rightarrow> upisnd_setup_t \<Rightarrow> 32 word \<Rightarrow> int \<times> upisnd_setup_t \<Rightarrow> bool" where
  "stores_masked shift bits s v r \<longleftrightarrow>
     fst r = 0 \<and> field_get shift bits (snd r) = take_bit bits v
     \<and> snd r AND NOT (field_mask shift bits) = s AND NOT (field_mask shift bits)"


section \<open>Element names (pisound-micro.c, lines 394 to 407)\<close>

text \<open>
  A C string is the list of its bytes before the terminating NUL; \<open>None\<close> is the NULL
  pointer.  \<open>strlen\<close> is \<open>length\<close>, \<open>strchr(name, '/') != NULL\<close> is membership.
  The source keeps the length in an \<open>int\<close>: \<open>n = strlen(name)\<close> converts the
  \<open>size_t\<close> to \<open>int\<close>, which keeps its low 32 bits, read as a signed number.
\<close>

definition strlen_int :: "string \<Rightarrow> int" where
  "strlen_int s = sint (word_of_nat (length s) :: 32 word)"

definition upisnd_validate_element_name :: "string option \<Rightarrow> int" where
  "upisnd_validate_element_name name =
     (case name of
        None \<Rightarrow> - 1
      | Some s \<Rightarrow>
          if s = [] \<or> strlen_int s \<ge> UPISND_MAX_ELEMENT_NAME_LENGTH then - 1
          else if CHR ''/'' \<in> set s then - 1
          else strlen_int s)"


section \<open>Contexts, element handles and the driver's files\<close>

text \<open>
  Pointers are addresses.  The heap of element nodes and the heap of contexts are partial
  maps; an address that is not allocated is a dangling pointer, and an operation that
  dereferences one has no defined behaviour: such an operation returns \<open>None\<close>.
  The singly linked list \<open>ctx->elements\<close> is the list of the addresses of its nodes, head
  first.  Locking and the atomicity of the reference count are not modelled: every
  operation runs alone.  A reference count is the \<open>int\<close> of the source, a word of 32
  bits that \<open>sint\<close> reads: \<open>__atomic_add_fetch\<close> and \<open>__atomic_sub_fetch\<close> wrap around.
\<close>

type_synonym addr = nat

record upisnd_ctx_t =
  ctx_refcount :: "32 word"
  sysfs_base :: string
  elements :: "addr list"

record upisnd_elements_list_node_t =
  refcount :: "32 word"
  name :: string
  ctx :: addr

text \<open>
  The system calls the library makes on the driver's files, in the order it makes them:
  the trace is what the driver sees.  \<open>Sys_write path data\<close> is a \<open>write\<close> of \<open>data\<close> on
  a descriptor opened for \<open>path\<close>; \<open>Sys_lseek\<close>, \<open>Sys_read\<close> and \<open>Sys_close_fd\<close> are
  calls on the descriptor number of an attribute file.
\<close>

datatype syscall =
  Sys_open string
  | Sys_write string string
  | Sys_fdatasync string
  | Sys_close string
  | Sys_stat string
  | Sys_usleep nat
  | Sys_lseek nat
  | Sys_read nat nat
  | Sys_close_fd nat

record world =
  upisnd_active_ctx :: "addr option"
  ctxs :: "addr \<Rightarrow> upisnd_ctx_t option"
  nodes :: "addr \<Rightarrow> upisnd_elements_list_node_t option"
  errno :: int
  trace :: "syscall list"
  clock_ms :: "32 word"

text \<open>
  What the system answers to one library call.  A system call on a file answers with its
  errno, 0 for success; \<open>env_malloc\<close> is the address \<open>malloc\<close> and \<open>strdup\<close> give a new
  node, \<open>None\<close> when either fails; \<open>env_isdir\<close> says whether \<open>stat\<close> succeeds on a
  directory; \<open>env_attr_open\<close> answers the \<open>i\<close>-th attempt to open an attribute file
  with a descriptor number or an errno, \<open>env_read fd count\<close> answers a \<open>read\<close> of at most
  \<open>count\<close> bytes with the bytes or an errno, \<open>env_strtol\<close> is the C library's
  \<open>strtol(text, NULL, 10)\<close> converted to \<open>int\<close> (the \<open>ERANGE\<close> it may leave in
  \<open>errno\<close> is not modelled).
\<close>

datatype open_result = Opened nat | Open_failed nat

datatype read_result = Read_bytes string | Read_failed nat

record sysenv =
  env_malloc :: "addr option"
  env_isdir :: "string \<Rightarrow> bool"
  env_open :: "string \<Rightarrow> nat"
  env_write :: "string \<Rightarrow> string \<Rightarrow> nat"
  env_fdatasync :: "string \<Rightarrow> nat"
  env_close :: "string \<Rightarrow> nat"
  env_attr_open :: "nat \<Rightarrow> string \<Rightarrow> open_result"
  env_lseek :: "nat \<Rightarrow> nat"
  env_read :: "nat \<Rightarrow> nat \<Rightarrow> read_result"
  env_close_fd :: "nat \<Rightarrow> nat"
  env_strtol :: "string \<Rightarrow> int"

definition sys :: "syscall \<Rightarrow> nat \<Rightarrow> world \<Rightarrow> world" where
  \<comment> \<open>a system call is recorded; a failing one sets \<open>errno\<close>\<close>
  "sys call e w = w\<lparr>trace := trace w @ [call], errno := (if e = 0 then errno w else int e)\<rparr>"

definition writes_of :: "syscall list \<Rightarrow> (string \<times> string) list" where
  "writes_of tr = concat (map (\<lambda>c. case c of Sys_write p d \<Rightarrow> [(p, d)] | _ \<Rightarrow> []) tr)"

definition opens_of :: "syscall list \<Rightarrow> string list" where
  "opens_of tr = concat (map (\<lambda>c. case c of Sys_open p \<Rightarrow> [p] | _ \<Rightarrow> []) tr)"

subsection \<open>Paths (lines 52 to 67 and 286 to 392)\<close>

definition UPISND_MAX_BASE_PATH_LENGTH :: int where
  [upisnd_consts]: "UPISND_MAX_BASE_PATH_LENGTH = 64"
definition UPISND_ELEMENT_MAX_PATH_LENGTH :: int where
  [upisnd_consts]:
  "UPISND_ELEMENT_MAX_PATH_LENGTH = UPISND_MAX_ELEMENT_NAME_LENGTH + UPISND_MAX_BASE_PATH_LENGTH"
definition UPISND_MAX_REQUEST_LENGTH :: int where
  [upisnd_consts]: "UPISND_MAX_REQUEST_LENGTH = UPISND_MAX_ELEMENT_NAME_LENGTH + 64"

definition UPISND_SYSFS_DEFAULT_BASE_PATH :: string where
  "UPISND_SYSFS_DEFAULT_BASE_PATH = ''/sys/pisound-micro''"

datatype upisnd_path_type_t = UPISND_PATH_SETUP | UPISND_PATH_UNSETUP

text \<open>
  \<open>snprintf(path, size, fmt, ...)\<close> returns the length of the whole text and leaves its
  first \<open>size - 1\<close> bytes in the buffer.  A path function returns the status and the buffer.
  For a text whose length is no \<open>int\<close>, \<open>snprintf\<close> answers a negative number, and the
  test \<open>n > 0 && n < size\<close> fails as it does for every length from \<open>size\<close> on: the
  status is \<open>-ENAMETOOLONG\<close> either way.
\<close>

definition upisnd_path :: "upisnd_path_type_t \<Rightarrow> string \<Rightarrow> int \<times> string" where
  "upisnd_path type base =
     (let text = base @ (case type of UPISND_PATH_SETUP \<Rightarrow> ''/setup''
                                     | UPISND_PATH_UNSETUP \<Rightarrow> ''/unsetup'');
          n = int (length text)
      in (if n > 0 \<and> n < UPISND_MAX_BASE_PATH_LENGTH then n else - ENAMETOOLONG,
          take (nat UPISND_MAX_BASE_PATH_LENGTH - 1) text))"

datatype upisnd_element_attr_e =
  UPISND_ELEMENT_ATTR_ROOT
  | UPISND_ELEMENT_ATTR_TYPE
  | UPISND_ELEMENT_ATTR_DIRECTION
  | UPISND_ELEMENT_ATTR_PIN
  | UPISND_ELEMENT_ATTR_PIN_NAME
  | UPISND_ELEMENT_ATTR_PIN_PULL
  | UPISND_ELEMENT_ATTR_PIN_B
  | UPISND_ELEMENT_ATTR_PIN_B_NAME
  | UPISND_ELEMENT_ATTR_PIN_B_PULL
  | UPISND_ELEMENT_ATTR_GPIO_EXPORT
  | UPISND_ELEMENT_ATTR_GPIO_UNEXPORT
  | UPISND_ELEMENT_ATTR_INPUT_MIN
  | UPISND_ELEMENT_ATTR_INPUT_MAX
  | UPISND_ELEMENT_ATTR_VALUE_LOW
  | UPISND_ELEMENT_ATTR_VALUE_HIGH
  | UPISND_ELEMENT_ATTR_VALUE_MODE
  | UPISND_ELEMENT_ATTR_VALUE
  | UPISND_ELEMENT_ATTR_ACTIVITY_TYPE

fun attr_file :: "upisnd_element_attr_e \<Rightarrow> string" where
  "attr_file UPISND_ELEMENT_ATTR_ROOT = []"
| "attr_file UPISND_ELEMENT_ATTR_TYPE = ''type''"
| "attr_file UPISND_ELEMENT_ATTR_DIRECTION = ''direction''"
| "attr_file UPISND_ELEMENT_ATTR_PIN = ''pin''"
| "attr_file UPISND_ELEMENT_ATTR_PIN_NAME = ''pin_name''"
| "attr_file UPISND_ELEMENT_ATTR_PIN_PULL = ''pin_pull''"
| "attr_file UPISND_ELEMENT_ATTR_PIN_B = ''pin_b''"
| "attr_file UPISND_ELEMENT_ATTR_PIN_B_NAME = ''pin_b_name''"
| "attr_file UPISND_ELEMENT_ATTR_PIN_B_PULL = ''pin_b_pull''"
| "attr_file UPISND_ELEMENT_ATTR_GPIO_EXPORT = ''gpio_export''"
| "attr_file UPISND_ELEMENT_ATTR_GPIO_UNEXPORT = ''gpio_unexport''"
| "attr_file UPISND_ELEMENT_ATTR_INPUT_MIN = ''input_min''"
| "attr_file UPISND_ELEMENT_ATTR_INPUT_MAX = ''input_max''"
| "attr_file UPISND_ELEMENT_ATTR_VALUE_LOW = ''value_low''"
| "attr_file UPISND_ELEMENT_ATTR_VALUE_HIGH = ''value_high''"
| "attr_file UPISND_ELEMENT_ATTR_VALUE_MODE = ''value_mode''"
| "attr_file UPISND_ELEMENT_ATTR_VALUE = ''value''"
| "attr_file UPISND_ELEMENT_ATTR_ACTIVITY_TYPE = ''activity_type''"

text \<open>
  For the root attribute the source writes \<open>path[n--] = 0\<close>: the byte at \<open>n\<close> is the
  terminator already, so the buffer keeps its trailing slash and only the returned length
  is one less.
\<close>

definition upisnd_element_path ::
  "string \<Rightarrow> string \<Rightarrow> upisnd_element_attr_e \<Rightarrow> int \<times> string" where
  "upisnd_element_path base nm attr =
     (let text = base @ ''/elements/'' @ nm @ ''/'' @ attr_file attr;
          n = int (length text);
          path = take (nat UPISND_ELEMENT_MAX_PATH_LENGTH - 1) text
      in if n > 0 \<and> n < UPISND_ELEMENT_MAX_PATH_LENGTH
         then (if attr = UPISND_ELEMENT_ATTR_ROOT then n - 1 else n, path)
         else (- ENAMETOOLONG, path))"

subsection \<open>The element list (lines 155 to 222)\<close>

definition upisnd_element_alloc :: "sysenv \<Rightarrow> string \<Rightarrow> addr \<Rightarrow> world \<Rightarrow> addr option \<times> world" where
  "upisnd_element_alloc env nm ca w =
     (case env_malloc env of
        None \<Rightarrow> (None, w)
      | Some a \<Rightarrow>
          (Some a, w\<lparr>nodes := (nodes w)(a \<mapsto> \<lparr>refcount = 1, name = nm, ctx = ca\<rparr>)\<rparr>))"

definition upisnd_elements_free :: "addr \<Rightarrow> world \<Rightarrow> world" where
  "upisnd_elements_free el w = w\<lparr>nodes := (nodes w)(el := None)\<rparr>"

definition upisnd_elements_prepend :: "addr \<Rightarrow> world \<Rightarrow> world option" where
  "upisnd_elements_prepend node w =
     (case nodes w node of
        None \<Rightarrow> None
      | Some nd \<Rightarrow>
          (case ctxs w (ctx nd) of
             None \<Rightarrow> None
           | Some c \<Rightarrow> Some (w\<lparr>ctxs := (ctxs w)(ctx nd \<mapsto> c\<lparr>elements := node # elements c\<rparr>)\<rparr>)))"

text \<open>
  \<open>upisnd_elements_remove\<close> walks the list to the first link that holds \<open>el\<close>, unlinks and
  frees it; when no link holds it the answer is \<open>-ENOENT\<close> and nothing is freed.
\<close>

definition upisnd_elements_remove :: "addr \<Rightarrow> world \<Rightarrow> (int \<times> world) option" where
  "upisnd_elements_remove el w =
     (case nodes w el of
        None \<Rightarrow> None
      | Some nd \<Rightarrow>
          (case ctxs w (ctx nd) of
             None \<Rightarrow> None
           | Some c \<Rightarrow>
               if el \<in> set (elements c)
               then Some (0, (upisnd_elements_free el
                      (w\<lparr>ctxs := (ctxs w)(ctx nd \<mapsto> c\<lparr>elements := remove1 el (elements c)\<rparr>)\<rparr>))
                      \<lparr>errno := 0\<rparr>)
               else Some (- ENOENT, w\<lparr>errno := ENOENT\<rparr>)))"

subsection \<open>Release (lines 322 to 335 and 565 to 647)\<close>

text \<open>
  The tail both \<open>upisnd_unsetup_do\<close> and \<open>upisnd_setup_do\<close> run on an open descriptor:
  \<open>if (write(fd, ...) < 0 || fdatasync(fd) < 0) err = errno; if (close(fd) < 0) err = errno;\<close>
  It returns \<open>err\<close>.
\<close>

definition write_sync_close :: "sysenv \<Rightarrow> string \<Rightarrow> string \<Rightarrow> world \<Rightarrow> nat \<times> world" where
  "write_sync_close env path payload w =
     (let ew = env_write env path payload;
          w1 = sys (Sys_write path payload) ew w;
          es = (if ew \<noteq> 0 then 0 else env_fdatasync env path);
          w2 = (if ew \<noteq> 0 then w1 else sys (Sys_fdatasync path) es w1);
          err = (if ew \<noteq> 0 then ew else es);
          ec = env_close env path;
          w3 = sys (Sys_close path) ec w2
      in (if ec \<noteq> 0 then ec else err, w3))"

definition upisnd_unsetup_do :: "sysenv \<Rightarrow> string \<Rightarrow> string \<Rightarrow> world \<Rightarrow> int \<times> world" where
  "upisnd_unsetup_do env base nm w =
     (let (n, path) = upisnd_path UPISND_PATH_UNSETUP base in
      if n < 0 then (n, w)
      else
        let eo = env_open env path;
            w1 = sys (Sys_open path) eo (w\<lparr>errno := 0\<rparr>)
        in if eo \<noteq> 0 then (- errno w1, w1)
           else
             let (err, w2) = write_sync_close env path nm w1
             in (- int err, w2\<lparr>errno := int err\<rparr>))"

definition upisnd_element_add_ref :: "addr option \<Rightarrow> world \<Rightarrow> (addr option \<times> world) option" where
  "upisnd_element_add_ref ref w =
     (case ref of
        None \<Rightarrow> Some (None, w)
      | Some a \<Rightarrow>
          (case nodes w a of
             None \<Rightarrow> None
           | Some nd \<Rightarrow>
               Some (Some a, w\<lparr>nodes := (nodes w)(a \<mapsto> nd\<lparr>refcount := refcount nd + 1\<rparr>)\<rparr>)))"

text \<open>
  \<open>upisnd_element_unref\<close> takes a pointer to a handle: \<open>None\<close> is the NULL pointer,
  \<open>Some None\<close> a pointer to a NULL handle.  It returns what the pointer refers to afterwards.
\<close>

definition upisnd_element_unref ::
  "sysenv \<Rightarrow> addr option option \<Rightarrow> world \<Rightarrow> (addr option option \<times> world) option" where
  "upisnd_element_unref env ref w =
     (case ref of
        None \<Rightarrow> Some (None, w)
      | Some None \<Rightarrow> Some (Some None, w)
      | Some (Some a) \<Rightarrow>
          (case nodes w a of
             None \<Rightarrow> None
           | Some nd \<Rightarrow>
               let w1 = w\<lparr>nodes := (nodes w)(a \<mapsto> nd\<lparr>refcount := refcount nd - 1\<rparr>)\<rparr>
               in if refcount nd - 1 = 0
                  then (case ctxs w1 (ctx nd) of
                          None \<Rightarrow> None
                        | Some c \<Rightarrow>
                            (case upisnd_elements_remove a
                                    (snd (upisnd_unsetup_do env (sysfs_base c) (name nd) w1)) of
                               None \<Rightarrow> None
                             | Some (r, w3) \<Rightarrow> Some (Some None, w3)))
                  else Some (Some None, w1)))"

subsection \<open>Lookup (lines 594 to 621)\<close>

fun find_element ::
  "(addr \<Rightarrow> upisnd_elements_list_node_t option) \<Rightarrow> string \<Rightarrow> addr list \<Rightarrow> addr option option" where
  "find_element h nm [] = Some None"
| "find_element h nm (a # as) =
     (case h a of
        None \<Rightarrow> None
      | Some nd \<Rightarrow> if name nd = nm then Some (Some a) else find_element h nm as)"

definition upisnd_element_get :: "string \<Rightarrow> world \<Rightarrow> (addr option \<times> world) option" where
  "upisnd_element_get nm w =
     (case upisnd_active_ctx w of
        None \<Rightarrow> Some (None, w\<lparr>errno := EINVAL\<rparr>)
      | Some ca \<Rightarrow>
          if upisnd_validate_element_name (Some nm) < 0 then Some (None, w\<lparr>errno := EINVAL\<rparr>)
          else
            (case ctxs w ca of
               None \<Rightarrow> None
             | Some c \<Rightarrow>
                 (case find_element (nodes w) nm (elements c) of
                    None \<Rightarrow> None
                  | Some None \<Rightarrow> Some (None, w)
                  | Some (Some a) \<Rightarrow>
                      (case upisnd_element_add_ref (Some a) w of
                         None \<Rightarrow> None
                       | Some (r, w1) \<Rightarrow> Some (Some a, w1\<lparr>errno := 0\<rparr>)))))"


subsection \<open>Names of pins and enumerators (lines 43 to 50 and 677 to 774)\<close>


definition upisnd_is_pin_valid :: "upisnd_pin_t \<Rightarrow> bool" where
  "upisnd_is_pin_valid pin \<longleftrightarrow> sint pin < sint UPISND_PIN_COUNT"




subsection \<open>Setup (lines 954 to 1165)\<close>

text \<open>
  \<open>upisnd_element_exists_in_sysfs\<close>: the element's directory is looked up with \<open>stat\<close>,
  unless its path does not fit.
\<close>

definition upisnd_element_exists_in_sysfs ::
  "sysenv \<Rightarrow> string \<Rightarrow> string \<Rightarrow> world \<Rightarrow> bool \<times> world" where
  "upisnd_element_exists_in_sysfs env base nm w =
     (let (err, path) = upisnd_element_path base nm UPISND_ELEMENT_ATTR_ROOT in
      if err < 0 then (False, w)
      else (env_isdir env path, w\<lparr>trace := trace w @ [Sys_stat path]\<rparr>))"

text \<open>
  The second half of \<open>upisnd_setup_do\<close>, from \<open>mtx_lock\<close> on: the request is written to the
  setup file, a new element is linked into the list when that went well, and on an error
  the reference taken by the lookup is given back or the new node is freed.
\<close>

definition upisnd_setup_do_commit ::
  "sysenv \<Rightarrow> string \<Rightarrow> string \<Rightarrow> addr \<Rightarrow> bool \<Rightarrow> bool \<Rightarrow> world \<Rightarrow> (addr option \<times> world) option" where
  "upisnd_setup_do_commit env path payload el existing0 existed_in_sysfs w =
     (let eo = env_open env path;
          w1 = sys (Sys_open path) eo w;
          (err, w2) = (if eo = 0 then write_sync_close env path payload w1 else (eo, w1));
          linked = (if err = 0 \<and> \<not> existing0 then upisnd_elements_prepend el w2 else Some w2);
          existing = (if err = 0 \<and> \<not> existing0 \<and> existed_in_sysfs then True else existing0)
      in case linked of
           None \<Rightarrow> None
         | Some w3 \<Rightarrow>
             if err \<noteq> 0 then
               (if existing \<and> \<not> existed_in_sysfs
                then (case upisnd_element_unref env (Some (Some el)) w3 of
                        None \<Rightarrow> None
                      | Some (r, w4) \<Rightarrow> Some (None, w4\<lparr>errno := int err\<rparr>))
                else Some (None, (upisnd_elements_free el w3)\<lparr>errno := int err\<rparr>))
             else Some (Some el, w3\<lparr>errno := (if \<not> existing then 0 else EEXIST)\<rparr>))"

text \<open>
  \<open>upisnd_setup_do(ctx, name, request_fmt, ...)\<close>.  Each of its five callers passes
  \<open>upisnd_active_ctx\<close> for \<open>ctx\<close>, which is also the context \<open>upisnd_element_get\<close> searches;
  \<open>request\<close> is the text \<open>vsnprintf\<close> makes of the format and its arguments.  The
  buffer written to the setup file starts with the first \<open>name_len\<close> bytes of the name
  (\<open>strncpy\<close>, then \<open>request[name_len++] = ' '\<close>), which is the whole name whenever its
  length is \<open>name_len\<close>.  A request too long for the buffer is refused with \<open>EINVAL\<close>,
  and so is one whose length is no \<open>int\<close>, for which \<open>vsnprintf\<close> answers a negative
  number.
\<close>

definition upisnd_setup_do :: "sysenv \<Rightarrow> string \<Rightarrow> string \<Rightarrow> world \<Rightarrow> (addr option \<times> world) option" where
  "upisnd_setup_do env nm request w =
     (let name_len = upisnd_validate_element_name (Some nm) in
      case upisnd_active_ctx w of
        None \<Rightarrow> Some (None, w\<lparr>errno := EINVAL\<rparr>)
      | Some ca \<Rightarrow>
          if name_len < 0 then Some (None, w\<lparr>errno := EINVAL\<rparr>)
          else
            (case ctxs w ca of
               None \<Rightarrow> None
             | Some c \<Rightarrow>
                 let (err, path) = upisnd_path UPISND_PATH_SETUP (sysfs_base c);
                     n = int (length request);
                     payload = take (nat name_len) nm @ '' '' @ request
                 in if err < 0 then Some (None, w\<lparr>errno := - err\<rparr>)
                    else if n + (name_len + 1) \<ge> UPISND_MAX_REQUEST_LENGTH
                    then Some (None, w\<lparr>errno := EINVAL\<rparr>)
                    else
                      (case upisnd_element_get nm w of
                         None \<Rightarrow> None
                       | Some (Some el, w1) \<Rightarrow>
                           upisnd_setup_do_commit env path payload el True False w1
                       | Some (None, w1) \<Rightarrow>
                           (case upisnd_element_alloc env nm ca w1 of
                              (None, w2) \<Rightarrow> Some (None, w2\<lparr>errno := ENOMEM\<rparr>)
                            | (Some el, w2) \<Rightarrow>
                                let (existed_in_sysfs, w3) =
                                      upisnd_element_exists_in_sysfs env (sysfs_base c) nm w2
                                in upisnd_setup_do_commit env path payload el
                                     False existed_in_sysfs w3))))"













text \<open>
  The well-formed registry of the context at \<open>ca\<close>: its list holds each node once, every
  listed node is allocated, belongs to the context and is referenced at least once, and no
  two listed nodes carry the same name.
\<close>

definition registry_ok :: "world \<Rightarrow> addr \<Rightarrow> bool" where
  "registry_ok w ca \<longleftrightarrow>
     (case ctxs w ca of
        None \<Rightarrow> False
      | Some c \<Rightarrow>
          distinct (elements c)
          \<and> list_all (\<lambda>a. case nodes w a of
                             None \<Rightarrow> False
                           | Some nd \<Rightarrow> ctx nd = ca \<and> 1 \<le> sint (refcount nd)) (elements c)
          \<and> distinct (map (\<lambda>a. map_option name (nodes w a)) (elements c)))"


section \<open>Attribute files (lines 224 to 229, 409 to 509, 649 to 664 and 1357 to 1386)\<close>

text \<open>
  Time is simulated: \<open>upisnd_get_ms\<close> reads the clock of the world, \<open>usleep\<close> of \<open>us\<close>
  microseconds advances it by \<open>us div 1000\<close> milliseconds, and no other call takes time.
  The clock is the \<open>uint32_t\<close> the source computes with, so that the elapsed time
  \<open>upisnd_get_ms() - started_at\<close> wraps as it does there.
\<close>

definition UPISND_TIMEOUT_MS :: "32 word" where
  "UPISND_TIMEOUT_MS = 2000"

definition upisnd_get_ms :: "world \<Rightarrow> 32 word" where
  "upisnd_get_ms w = clock_ms w"

definition usleep :: "nat \<Rightarrow> world \<Rightarrow> world" where
  "usleep us w =
     w\<lparr>clock_ms := clock_ms w + word_of_nat (us div 1000), trace := trace w @ [Sys_usleep us]\<rparr>"

text \<open>One \<open>open\<close> of an attribute file: the call is recorded, a failing one sets \<open>errno\<close>.\<close>

definition attr_open_failed :: "string \<Rightarrow> nat \<Rightarrow> world \<Rightarrow> world" where
  "attr_open_failed path e w = w\<lparr>trace := trace w @ [Sys_open path], errno := int e\<rparr>"

definition attr_opened :: "string \<Rightarrow> world \<Rightarrow> world" where
  "attr_opened path w = w\<lparr>trace := trace w @ [Sys_open path]\<rparr>"

text \<open>
  The \<open>do ... while\<close> loop of \<open>upisnd_element_attr_open\<close>; \<open>i\<close> counts the attempts made
  before this one.  \<open>continue\<close> in a \<open>do ... while\<close> jumps to the test of the loop.
\<close>

function upisnd_element_attr_open_loop ::
  "sysenv \<Rightarrow> string \<Rightarrow> 32 word \<Rightarrow> nat \<Rightarrow> world \<Rightarrow> int \<times> world" where
  "upisnd_element_attr_open_loop env path started_at i w =
     (case env_attr_open env i path of
        Opened fd \<Rightarrow> (int fd, (attr_opened path w)\<lparr>errno := 0\<rparr>)
      | Open_failed e \<Rightarrow>
          if errno (attr_open_failed path e w) = ENOENT
             \<or> errno (attr_open_failed path e w) = EACCES
          then
            (if upisnd_get_ms (usleep 1000 (attr_open_failed path e w)) - started_at
                  < UPISND_TIMEOUT_MS
             then upisnd_element_attr_open_loop env path started_at (i + 1)
                    (usleep 1000 (attr_open_failed path e w))
             else (- 1, usleep 1000 (attr_open_failed path e w)))
          else (- 1, attr_open_failed path e w))"
  by pat_completeness auto
termination
proof (relation "measure (\<lambda>(env, path, started_at, i, w). unat (1999 - (clock_ms w - started_at)))",
       goal_cases)
  case 1
  show ?case by simp
next
  case (2 env path started_at i w e)
  define x where "x = clock_ms w + 1 - started_at"
  have "x < 2000"
    using 2(3)
    by (simp add: x_def upisnd_get_ms_def usleep_def attr_open_failed_def UPISND_TIMEOUT_MS_def)
  then have lt: "unat x < 2000" by (simp add: word_less_nat_alt)
  have "x \<le> 1999" using lt by (simp add: word_le_nat_alt)
  then have a: "unat (1999 - x) = 1999 - unat x" by (simp add: unat_sub)
  have "x \<le> 2000" using lt by (simp add: word_le_nat_alt)
  then have b: "unat (2000 - x) = 2000 - unat x" by (simp add: unat_sub)
  have c: "1999 - (clock_ms w - started_at) = 2000 - x" by (simp add: x_def)
  have "unat (1999 - x) < unat (1999 - (clock_ms w - started_at))"
    unfolding c a b using lt by arith
  then show ?case by (simp add: x_def usleep_def attr_open_failed_def)
qed

declare upisnd_element_attr_open_loop.simps [simp del]

text \<open>The \<open>flags\<close> of \<open>open\<close> play no part in what the library does and are left out.\<close>

definition upisnd_element_attr_open ::
  "sysenv \<Rightarrow> upisnd_element_attr_e \<Rightarrow> addr option \<Rightarrow> world \<Rightarrow> (int \<times> world) option" where
  "upisnd_element_attr_open env attr el w =
     (case el of
        None \<Rightarrow> Some (- 1, w\<lparr>errno := EINVAL\<rparr>)
      | Some a \<Rightarrow>
          (case nodes w a of
             None \<Rightarrow> None
           | Some nd \<Rightarrow>
               (case ctxs w (ctx nd) of
                  None \<Rightarrow> None
                | Some c \<Rightarrow>
                    let (err, path) = upisnd_element_path (sysfs_base c) (name nd) attr in
                    if err < 0 then Some (- 1, w\<lparr>errno := - err\<rparr>)
                    else Some (upisnd_element_attr_open_loop env path (upisnd_get_ms w) 0 w))))"

definition upisnd_element_open_value_fd ::
  "sysenv \<Rightarrow> addr option \<Rightarrow> world \<Rightarrow> (int \<times> world) option" where
  "upisnd_element_open_value_fd env el w =
     upisnd_element_attr_open env UPISND_ELEMENT_ATTR_VALUE el w"

definition upisnd_value_read :: "sysenv \<Rightarrow> nat \<Rightarrow> world \<Rightarrow> int \<times> world" where
  "upisnd_value_read env fd w =
     (let w1 = sys (Sys_lseek fd) (env_lseek env fd) (w\<lparr>errno := 0\<rparr>) in
      if env_lseek env fd \<noteq> 0 then (- 1, w1)
      else
        (case env_read env fd 15 of
           Read_failed e \<Rightarrow> (- 1, (sys (Sys_read fd 15) e w1))
         | Read_bytes bs \<Rightarrow>
             (env_strtol env (takeWhile (\<lambda>c. c \<noteq> CHR 0x00) (take 15 bs)),
              sys (Sys_read fd 15) 0 w1)))"

definition upisnd_element_attr_read_int ::
  "sysenv \<Rightarrow> upisnd_element_attr_e \<Rightarrow> addr option \<Rightarrow> world \<Rightarrow> (int \<times> world) option" where
  "upisnd_element_attr_read_int env attr el w =
     (case upisnd_element_attr_open env attr el w of
        None \<Rightarrow> None
      | Some (fd, w1) \<Rightarrow>
          if fd < 0 then Some (- 1, w1)
          else
            let (v, w2) = upisnd_value_read env (nat fd) w1;
                err = errno w2;
                w3 = sys (Sys_close_fd (nat fd)) (env_close_fd env (nat fd)) w2
            in Some (v, w3\<lparr>errno := err\<rparr>))"

text \<open>
  \<open>upisnd_element_attr_read_str(dst, n, attr, el)\<close> with a buffer \<open>dst\<close> (\<open>None\<close> for the
  NULL pointer) of \<open>n\<close> bytes.  It returns the result of \<open>read\<close> and the C string the
  buffer holds afterwards, \<open>None\<close> when the buffer was not written.
\<close>

definition UPISND_TEXT_SEPARATORS :: string where
  "UPISND_TEXT_SEPARATORS = [CHR '' '', CHR 0x0A, CHR 0x09]"

definition upisnd_element_attr_read_str ::
  "sysenv \<Rightarrow> string option \<Rightarrow> nat \<Rightarrow> upisnd_element_attr_e \<Rightarrow> addr option \<Rightarrow> world
     \<Rightarrow> ((int \<times> string option) \<times> world) option" where
  "upisnd_element_attr_read_str env dst n attr el w =
     (if dst = None \<or> n < 2 then Some ((- 1, dst), w\<lparr>errno := EINVAL\<rparr>)
      else
        (case upisnd_element_attr_open env attr el w of
           None \<Rightarrow> None
         | Some (fd, w1) \<Rightarrow>
             if fd < 0 then Some ((- 1, dst), w1)
             else
               (case env_read env (nat fd) (n - 1) of
                  Read_failed e \<Rightarrow>
                    let w2 = sys (Sys_read (nat fd) (n - 1)) e w1;
                        err = errno w2;
                        w3 = sys (Sys_close_fd (nat fd)) (env_close_fd env (nat fd)) w2
                    in Some ((- 1, dst), w3\<lparr>errno := err\<rparr>)
                | Read_bytes bs \<Rightarrow>
                    let w2 = sys (Sys_read (nat fd) (n - 1)) 0 w1;
                        w3 = sys (Sys_close_fd (nat fd)) (env_close_fd env (nat fd)) w2
                    in Some ((int (length (take (n - 1) bs)),
                              Some (takeWhile (\<lambda>c. c \<noteq> CHR 0x00 \<and> c \<notin> set UPISND_TEXT_SEPARATORS)
                                      (take (n - 1) bs))),
                             w3\<lparr>errno := 0\<rparr>))))"

definition upisnd_element_type_to_str :: "upisnd_element_type_e \<Rightarrow> string" where
  "upisnd_element_type_to_str type =
     (if type = UPISND_ELEMENT_TYPE_NONE then ''none''
      else if type = UPISND_ELEMENT_TYPE_ENCODER then ''encoder''
      else if type = UPISND_ELEMENT_TYPE_ANALOG_INPUT then ''analog_in''
      else if type = UPISND_ELEMENT_TYPE_GPIO then ''gpio''
      else if type = UPISND_ELEMENT_TYPE_ACTIVITY then ''activity''
      else [])"

text \<open>\<open>UPISND_DEFINE_STR_TO_ENUM(element_type, UPISND_ELEMENT_TYPE_COUNT)\<close>.\<close>

definition upisnd_str_to_element_type :: "string \<Rightarrow> upisnd_element_type_e" where
  "upisnd_str_to_element_type str =
     (case filter (\<lambda>i. str = upisnd_element_type_to_str i) [0, 1, 2, 3, 4] of
        [] \<Rightarrow> - 1
      | i # _ \<Rightarrow> i)"

definition upisnd_element_get_name :: "addr option \<Rightarrow> world \<Rightarrow> string option option" where
  \<comment> \<open>the outer \<open>None\<close> is a dangling handle, \<open>Some None\<close> the NULL result\<close>
  "upisnd_element_get_name el w =
     (case el of
        None \<Rightarrow> Some None
      | Some a \<Rightarrow> (case nodes w a of None \<Rightarrow> None | Some nd \<Rightarrow> Some (Some (name nd))))"

definition upisnd_element_get_type ::
  "sysenv \<Rightarrow> addr option \<Rightarrow> world \<Rightarrow> (upisnd_element_type_e \<times> world) option" where
  "upisnd_element_get_type env el w =
     (case el of
        None \<Rightarrow> Some (UPISND_ELEMENT_TYPE_INVALID, w)
      | Some a \<Rightarrow>
          (case upisnd_element_attr_read_str env (Some []) 64 UPISND_ELEMENT_ATTR_TYPE el w of
             None \<Rightarrow> None
           | Some ((n, type), w1) \<Rightarrow>
               if n < 0 then Some (UPISND_ELEMENT_TYPE_INVALID, w1)
               else Some (upisnd_str_to_element_type (case type of None \<Rightarrow> [] | Some t \<Rightarrow> t), w1)))"

text \<open>
  \<open>upisnd_is_pin_valid(i)\<close> is called with an \<open>int\<close>, which the call converts to
  \<open>upisnd_pin_t\<close>.
\<close>

definition upisnd_element_get_pin ::
  "sysenv \<Rightarrow> addr option \<Rightarrow> world \<Rightarrow> (upisnd_pin_t \<times> world) option" where
  "upisnd_element_get_pin env el w =
     (case el of
        None \<Rightarrow> Some (UPISND_PIN_INVALID, w\<lparr>errno := EINVAL\<rparr>)
      | Some a \<Rightarrow>
          (case upisnd_element_attr_read_int env UPISND_ELEMENT_ATTR_PIN el w of
             None \<Rightarrow> None
           | Some (i, w1) \<Rightarrow>
               Some (if upisnd_is_pin_valid (word_of_int i) then word_of_int i
                     else UPISND_PIN_INVALID, w1)))"


text \<open>
  Notions to state the retry property: the calls of \<open>n\<close> failed attempts, each followed by
  the sleep; the open results the loop retries on; the errno of a failed open; the length
  of one sleep in milliseconds; and that each of the first \<open>K\<close> attempts on \<open>path\<close> fails
  with a result in \<open>rs\<close>.
\<close>

definition retries :: "string \<Rightarrow> nat \<Rightarrow> syscall list" where
  "retries path n = concat (replicate n [Sys_open path, Sys_usleep 1000])"

definition not_found :: open_result where
  "not_found = Open_failed (nat ENOENT)"

definition permission_denied :: open_result where
  "permission_denied = Open_failed (nat EACCES)"

definition failed_errno :: "open_result \<Rightarrow> int" where
  "failed_errno r = (case r of Open_failed e \<Rightarrow> int e | Opened fd \<Rightarrow> 0)"

definition backoff_ms :: nat where
  "backoff_ms = 1000 div 1000"

definition first_attempts_fail :: "open_result list \<Rightarrow> nat \<Rightarrow> sysenv \<Rightarrow> string \<Rightarrow> bool" where
  "first_attempts_fail rs K env path \<longleftrightarrow> list_all (\<lambda>i. env_attr_open env i path \<in> set rs) [0..<K]"


section \<open>Worlds and environments of the scenarios\<close>

text \<open>
  The world with one context for the default root and no element; the world in which that
  context holds one element \<open>nm\<close>, referenced once, at address 1; the environment in which
  every call succeeds, \<open>malloc\<close> answers address 1 and no element directory exists yet; the
  environment of a simulated file system that answers not-found to the first \<open>K\<close> attempts
  to open an attribute file and descriptor 3 from then on; the one that answers every
  attempt with the error \<open>e\<close>; the one that answers not-found to the first \<open>K\<close> attempts
  and the error \<open>e\<close> from then on.
\<close>

definition default_ctx :: "addr list \<Rightarrow> upisnd_ctx_t" where
  "default_ctx els =
     \<lparr>ctx_refcount = 1, sysfs_base = UPISND_SYSFS_DEFAULT_BASE_PATH, elements = els\<rparr>"

definition initial_world :: world where
  "initial_world =
     \<lparr>upisnd_active_ctx = Some 0, ctxs = [0 \<mapsto> default_ctx []], nodes = Map.empty,
      errno = 0, trace = [], clock_ms = 0\<rparr>"

definition world_with_element :: "string \<Rightarrow> world" where
  "world_with_element nm =
     \<lparr>upisnd_active_ctx = Some 0, ctxs = [0 \<mapsto> default_ctx [1]],
      nodes = [1 \<mapsto> \<lparr>refcount = 1, name = nm, ctx = 0\<rparr>],
      errno = 0, trace = [], clock_ms = 0\<rparr>"

definition nominal_env :: sysenv where
  "nominal_env =
     \<lparr>env_malloc = Some 1, env_isdir = (\<lambda>p. False), env_open = (\<lambda>p. 0),
      env_write = (\<lambda>p d. 0), env_fdatasync = (\<lambda>p. 0), env_close = (\<lambda>p. 0),
      env_attr_open = (\<lambda>i p. Opened 3), env_lseek = (\<lambda>fd. 0),
      env_read = (\<lambda>fd n. Read_bytes []), env_close_fd = (\<lambda>fd. 0), env_strtol = (\<lambda>s. 0)\<rparr>"

definition env_not_found_until :: "nat \<Rightarrow> sysenv" where
  "env_not_found_until K =
     nominal_env\<lparr>env_attr_open := (\<lambda>i p. if i < K then not_found else Opened 3)\<rparr>"

definition env_open_error :: "nat \<Rightarrow> sysenv" where
  "env_open_error e = nominal_env\<lparr>env_attr_open := (\<lambda>i p. Open_failed e)\<rparr>"

definition env_not_found_then_error :: "nat \<Rightarrow> nat \<Rightarrow> sysenv" where
  "env_not_found_then_error K e =
     nominal_env\<lparr>env_attr_open := (\<lambda>i p. if i < K then not_found else Open_failed e)\<rparr>"


section \<open>Notions to state the properties of setup and release\<close>

text \<open>
  The setup and unsetup files of a root, and that their paths fit; that a request fits the
  request buffer behind a name; the calls of a transaction (open, write, fdatasync, close)
  on a context file that goes well, and the error \<open>err\<close> the library keeps of one that
  does not: the error of \<open>open\<close>, else that of \<open>close\<close>, else that of \<open>write\<close>, else that
  of \<open>fdatasync\<close>.
\<close>

definition setup_file :: "string \<Rightarrow> string" where
  "setup_file base = snd (upisnd_path UPISND_PATH_SETUP base)"

definition unsetup_file :: "string \<Rightarrow> string" where
  "unsetup_file base = snd (upisnd_path UPISND_PATH_UNSETUP base)"

definition path_fits :: "upisnd_path_type_t \<Rightarrow> string \<Rightarrow> bool" where
  "path_fits t base \<longleftrightarrow> 0 \<le> fst (upisnd_path t base)"

definition request_fits :: "string \<Rightarrow> string \<Rightarrow> bool" where
  "request_fits nm request \<longleftrightarrow>
     int (length request) + (int (length nm) + 1) < UPISND_MAX_REQUEST_LENGTH"

definition transaction_ok :: "sysenv \<Rightarrow> string \<Rightarrow> string \<Rightarrow> bool" where
  "transaction_ok env path payload \<longleftrightarrow>
     env_open env path = 0 \<and> env_write env path payload = 0 \<and> env_fdatasync env path = 0
     \<and> env_close env path = 0"

definition transaction_calls :: "string \<Rightarrow> string \<Rightarrow> syscall list" where
  "transaction_calls path payload =
     [Sys_open path, Sys_write path payload, Sys_fdatasync path, Sys_close path]"

definition transaction_error :: "sysenv \<Rightarrow> string \<Rightarrow> string \<Rightarrow> nat" where
  "transaction_error env path payload =
     (if env_open env path \<noteq> 0 then env_open env path
      else if env_close env path \<noteq> 0 then env_close env path
      else if env_write env path payload \<noteq> 0 then env_write env path payload
      else env_fdatasync env path)"

definition registered_names :: "world \<Rightarrow> upisnd_ctx_t \<Rightarrow> string option list" where
  "registered_names w c = map (\<lambda>a. map_option name (nodes w a)) (elements c)"


text \<open>
  The calls of a transaction on a context file whatever its outcome: \<open>fdatasync\<close> is not
  called after a failed \<open>write\<close>, and nothing is called after a failed \<open>open\<close>.  The
  calls of a release: none when the path of the unsetup file does not fit.  The call and
  the answer of the lookup of an element's directory.
\<close>

definition transaction_trace :: "sysenv \<Rightarrow> string \<Rightarrow> string \<Rightarrow> syscall list" where
  "transaction_trace env path payload =
     (if env_open env path \<noteq> 0 then [Sys_open path]
      else [Sys_open path, Sys_write path payload]
           @ (if env_write env path payload = 0 then [Sys_fdatasync path] else [])
           @ [Sys_close path])"

definition release_calls :: "sysenv \<Rightarrow> string \<Rightarrow> string \<Rightarrow> syscall list" where
  "release_calls env base nm =
     (if path_fits UPISND_PATH_UNSETUP base then transaction_trace env (unsetup_file base) nm
      else [])"

definition probe_calls :: "string \<Rightarrow> string \<Rightarrow> syscall list" where
  "probe_calls base nm =
     (if fst (upisnd_element_path base nm UPISND_ELEMENT_ATTR_ROOT) < 0 then []
      else [Sys_stat (snd (upisnd_element_path base nm UPISND_ELEMENT_ATTR_ROOT))])"

definition probe_result :: "sysenv \<Rightarrow> string \<Rightarrow> string \<Rightarrow> bool" where
  "probe_result env base nm \<longleftrightarrow>
     \<not> fst (upisnd_element_path base nm UPISND_ELEMENT_ATTR_ROOT) < 0
     \<and> env_isdir env (snd (upisnd_element_path base nm UPISND_ELEMENT_ATTR_ROOT))"




definition env_open_denied :: sysenv where
  \<comment> \<open>every \<open>open\<close> of a context file fails with \<open>EACCES\<close>\<close>
  "env_open_denied = nominal_env\<lparr>env_open := (\<lambda>p. nat EACCES)\<rparr>"

definition env_write_error :: "nat \<Rightarrow> sysenv" where
  \<comment> \<open>every \<open>write\<close> on a context file fails with the given errno\<close>
  "env_write_error e = nominal_env\<lparr>env_write := (\<lambda>p d. e)\<rparr>"



















section \<open>Properties\<close>

subsection \<open>The field macro\<close>

lemma low_mask: "push_bit bits 1 - 1 = (mask bits :: 32 word)"
  by (simp add: mask_eq_exp_minus_1 push_bit_eq_mult)

lemma field_get_set: "field_get sh b (field_set sh b s v) = take_bit (min b (32 - sh)) v"
  unfolding field_get_def field_set_def field_mask_def low_mask
  by (rule bit_word_eqI) (auto simp: bit_simps)

lemma field_get_set_other:
  "sh + b \<le> sh' \<or> sh' + b' \<le> sh \<Longrightarrow> field_get sh b (field_set sh' b' s v) = field_get sh b s"
  unfolding field_get_def field_set_def field_mask_def low_mask
  by (rule bit_word_eqI) (auto simp: bit_simps)

lemma field_set_outside:
  "field_set sh b s v AND NOT (field_mask sh b) = s AND NOT (field_mask sh b)"
  unfolding field_get_def field_set_def field_mask_def low_mask
  by (rule bit_word_eqI) (auto simp: bit_simps)

lemma field_get_zero: "field_get sh b 0 = 0"
  by (simp add: field_get_def)

lemma ucast_take_bit_scast: "ucast (take_bit 8 (scast (p :: 8 word) :: 32 word)) = p"
  by (rule bit_word_eqI) (auto simp: bit_simps)

lemma word32_of_sint: "sint (v :: 32 word) = k \<Longrightarrow> v = word_of_int k"
  by (erule subst) simp

lemma sint_succ: "sint (x :: 32 word) < 2147483647 \<Longrightarrow> sint (x + 1) = sint x + 1"
  using sint_ge[of x] by (simp add: sint_word_ariths signed_take_bit_int_eq_self)

lemma sint_pred: "- 2147483648 < sint (x :: 32 word) \<Longrightarrow> sint (x - 1) = sint x - 1"
  using sint_lt[of x] by (simp add: sint_word_ariths signed_take_bit_int_eq_self)

lemma word32_cases2:
  assumes "0 \<le> sint (v :: 32 word)" "sint v < 2"
  shows "v = 0 \<or> v = 1"
proof -
  have "sint v = 0 \<or> sint v = 1" using assms by arith
  then show ?thesis by (auto dest: word32_of_sint)
qed

lemma word32_cases3:
  assumes "0 \<le> sint (v :: 32 word)" "sint v < 3"
  shows "v = 0 \<or> v = 1 \<or> v = 2"
proof -
  have "sint v = 0 \<or> sint v = 1 \<or> sint v = 2" using assms by arith
  then show ?thesis by (auto dest: word32_of_sint)
qed

lemmas codec_simps = setup_accessor_defs internal_field_defs upisnd_consts field_get_set
  field_get_set_other field_get_zero Let_def ucast_take_bit_scast with_type_def set_then_get_def

subsection \<open>Round trips, one field at a time\<close>

lemma set_element_type_ok:
  "real_element_type t \<Longrightarrow> upisnd_setup_set_element_type s0 t = (0, with_type s0 t)"
  by (auto simp: real_element_type_def codec_simps)

lemma roundtrip_pin_id:
  "real_element_type t \<Longrightarrow>
   set_then_get upisnd_setup_set_pin_id upisnd_setup_get_pin_id (with_type s0 t) p = (0, p)"
  by (auto simp: real_element_type_def codec_simps)

lemma roundtrip_gpio_pull:
  assumes "t = UPISND_ELEMENT_TYPE_ENCODER \<or> t = UPISND_ELEMENT_TYPE_GPIO" "valid_pull v"
  shows "set_then_get upisnd_setup_set_gpio_pull upisnd_setup_get_gpio_pull (with_type s0 t) v
         = (0, v)"
  using assms(1) word32_cases3[of v] assms(2)
  by (auto simp: valid_pull_def codec_simps)

lemma roundtrip_gpio_dir:
  assumes "valid_dir d"
  shows "set_then_get upisnd_setup_set_gpio_dir upisnd_setup_get_gpio_dir
           (with_type s0 UPISND_ELEMENT_TYPE_GPIO) d = (0, d)"
  using word32_cases2[of d] assms
  by (auto simp: valid_dir_def codec_simps)

lemma set_gpio_dir_output_ok:
  "fst (upisnd_setup_set_gpio_dir (with_type s0 UPISND_ELEMENT_TYPE_GPIO) UPISND_PIN_DIR_OUTPUT) = 0"
  by (simp add: codec_simps)

lemma roundtrip_gpio_output:
  "set_then_get upisnd_setup_set_gpio_output upisnd_setup_get_gpio_output
     (snd (upisnd_setup_set_gpio_dir (with_type s0 UPISND_ELEMENT_TYPE_GPIO) UPISND_PIN_DIR_OUTPUT)) b
   = (0, if b then 1 else 0)"
  by (auto simp: codec_simps)

lemma roundtrip_encoder_pin_b_id:
  "set_then_get upisnd_setup_set_encoder_pin_b_id upisnd_setup_get_encoder_pin_b_id
     (with_type s0 UPISND_ELEMENT_TYPE_ENCODER) p = (0, p)"
  by (auto simp: codec_simps)

lemma roundtrip_encoder_pin_b_pull:
  assumes "valid_pull v"
  shows "set_then_get upisnd_setup_set_encoder_pin_b_pull upisnd_setup_get_encoder_pin_b_pull
           (with_type s0 UPISND_ELEMENT_TYPE_ENCODER) v = (0, v)"
  using word32_cases3[of v] assms
  by (auto simp: valid_pull_def codec_simps)

lemma roundtrip_activity_type:
  assumes "valid_activity a"
  shows "set_then_get upisnd_setup_set_activity_type upisnd_setup_get_activity_type
           (with_type s0 UPISND_ELEMENT_TYPE_ACTIVITY) a = (0, a)"
  using word32_cases2[of a] assms
  by (auto simp: valid_activity_def codec_simps)

subsection \<open>Descriptor round trip\<close>

text \<open>
  Claim C4, as the code has it.  For every element type and every field that applies to it,
  setting the type tag, then the field to a valid value, and reading the field back with
  the public getter gives the value: the main pin id for the four real element types, the
  pull for encoders and for GPIOs (whose direction is input right after the type is set),
  the direction for GPIOs, the second pin and its pull for encoders, the activity kind for
  activity elements.  The output level of a GPIO round-trips once the direction has been
  set to output; set right after the type tag it is refused, see the counterexample.
\<close>

theorem C4_descriptor_roundtrip:
  "(real_element_type t \<longrightarrow> upisnd_setup_set_element_type s0 t = (0, with_type s0 t))
   \<and> (real_element_type t \<and> valid_pin p \<longrightarrow>
        set_then_get upisnd_setup_set_pin_id upisnd_setup_get_pin_id (with_type s0 t) p = (0, p))
   \<and> ((t = UPISND_ELEMENT_TYPE_ENCODER \<or> t = UPISND_ELEMENT_TYPE_GPIO) \<and> valid_pull v \<longrightarrow>
        set_then_get upisnd_setup_set_gpio_pull upisnd_setup_get_gpio_pull (with_type s0 t) v = (0, v))
   \<and> (valid_dir d \<longrightarrow>
        set_then_get upisnd_setup_set_gpio_dir upisnd_setup_get_gpio_dir
          (with_type s0 UPISND_ELEMENT_TYPE_GPIO) d = (0, d))
   \<and> fst (upisnd_setup_set_gpio_dir (with_type s0 UPISND_ELEMENT_TYPE_GPIO) UPISND_PIN_DIR_OUTPUT) = 0
   \<and> set_then_get upisnd_setup_set_gpio_output upisnd_setup_get_gpio_output
        (snd (upisnd_setup_set_gpio_dir (with_type s0 UPISND_ELEMENT_TYPE_GPIO) UPISND_PIN_DIR_OUTPUT)) b
       = (0, if b then 1 else 0)
   \<and> (valid_pin q \<longrightarrow>
        set_then_get upisnd_setup_set_encoder_pin_b_id upisnd_setup_get_encoder_pin_b_id
          (with_type s0 UPISND_ELEMENT_TYPE_ENCODER) q = (0, q))
   \<and> (valid_pull w \<longrightarrow>
        set_then_get upisnd_setup_set_encoder_pin_b_pull upisnd_setup_get_encoder_pin_b_pull
          (with_type s0 UPISND_ELEMENT_TYPE_ENCODER) w = (0, w))
   \<and> (valid_activity a \<longrightarrow>
        set_then_get upisnd_setup_set_activity_type upisnd_setup_get_activity_type
          (with_type s0 UPISND_ELEMENT_TYPE_ACTIVITY) a = (0, a))"
  using set_element_type_ok[of t s0] roundtrip_pin_id[of t s0 p] roundtrip_gpio_pull[of t v s0]
    roundtrip_gpio_dir[of d s0] set_gpio_dir_output_ok[of s0] roundtrip_gpio_output[of s0 b]
    roundtrip_encoder_pin_b_id[of s0 q] roundtrip_encoder_pin_b_pull[of w s0]
    roundtrip_activity_type[of a s0]
  by blast

theorem C4_descriptor_roundtrip_witness:
  "real_element_type UPISND_ELEMENT_TYPE_GPIO \<and> valid_pin UPISND_PIN_B03
   \<and> valid_pull UPISND_PIN_PULL_UP \<and> valid_dir UPISND_PIN_DIR_OUTPUT
   \<and> valid_pin UPISND_PIN_B04 \<and> valid_pull UPISND_PIN_PULL_DOWN
   \<and> valid_activity UPISND_ACTIVITY_MIDI_OUTPUT
   \<and> upisnd_setup_set_element_type 0xFFFFFFFF UPISND_ELEMENT_TYPE_GPIO = (0, 3)
   \<and> set_then_get upisnd_setup_set_pin_id upisnd_setup_get_pin_id 3 UPISND_PIN_B03
       = (0, UPISND_PIN_B03)
   \<and> set_then_get upisnd_setup_set_gpio_pull upisnd_setup_get_gpio_pull 3 UPISND_PIN_PULL_UP
       = (0, UPISND_PIN_PULL_UP)
   \<and> set_then_get upisnd_setup_set_gpio_dir upisnd_setup_get_gpio_dir 3 UPISND_PIN_DIR_OUTPUT
       = (0, UPISND_PIN_DIR_OUTPUT)
   \<and> set_then_get upisnd_setup_set_encoder_pin_b_id upisnd_setup_get_encoder_pin_b_id 1
        UPISND_PIN_B04 = (0, UPISND_PIN_B04)
   \<and> set_then_get upisnd_setup_set_encoder_pin_b_pull upisnd_setup_get_encoder_pin_b_pull 1
        UPISND_PIN_PULL_DOWN = (0, UPISND_PIN_PULL_DOWN)
   \<and> set_then_get upisnd_setup_set_activity_type upisnd_setup_get_activity_type 4
        UPISND_ACTIVITY_MIDI_OUTPUT = (0, UPISND_ACTIVITY_MIDI_OUTPUT)"
proof -
  have h: "real_element_type UPISND_ELEMENT_TYPE_GPIO" "valid_pin UPISND_PIN_B03"
    "valid_pull UPISND_PIN_PULL_UP" "valid_dir UPISND_PIN_DIR_OUTPUT"
    "valid_pin UPISND_PIN_B04" "valid_pull UPISND_PIN_PULL_DOWN"
    "valid_activity UPISND_ACTIVITY_MIDI_OUTPUT"
    by (simp_all add: real_element_type_def valid_pin_def valid_pull_def valid_dir_def
        valid_activity_def upisnd_consts)
  have w: "with_type 0xFFFFFFFF UPISND_ELEMENT_TYPE_GPIO = 3"
    "with_type 0xFFFFFFFF UPISND_ELEMENT_TYPE_ENCODER = 1"
    "with_type 0xFFFFFFFF UPISND_ELEMENT_TYPE_ACTIVITY = 4"
    by (simp_all add: with_type_def upisnd_setup_set_element_type_def internal_field_defs
        field_set_def field_mask_def upisnd_consts)
  show ?thesis
    using h w C4_descriptor_roundtrip[of UPISND_ELEMENT_TYPE_GPIO "0xFFFFFFFF" UPISND_PIN_B03
        UPISND_PIN_PULL_UP UPISND_PIN_DIR_OUTPUT True UPISND_PIN_B04 UPISND_PIN_PULL_DOWN
        UPISND_ACTIVITY_MIDI_OUTPUT]
    by simp
qed

text \<open>
  Claim C4 as it is stated fails for the output level: right after the type tag GPIO is
  set the direction bit is input, \<open>upisnd_setup_set_gpio_output\<close> answers \<open>-EINVAL\<close>
  without storing anything, and the getter answers \<open>-EINVAL\<close> instead of the level.
\<close>

theorem C4_output_level_counterexample:
  "upisnd_setup_set_element_type 0 UPISND_ELEMENT_TYPE_GPIO = (0, 3)
   \<and> upisnd_setup_set_gpio_output 3 True = (- EINVAL, 3)
   \<and> upisnd_setup_get_gpio_output 3 = - EINVAL
   \<and> set_then_get upisnd_setup_set_gpio_output upisnd_setup_get_gpio_output 3 True \<noteq> (0, 1)"
  by (simp add: setup_accessor_defs internal_field_defs upisnd_consts set_then_get_def
      field_get_def field_set_def field_mask_def)

subsection \<open>Fields that do not apply to the stored type\<close>

lemmas applies_simps = is_gpio_with_dir_def setup_accessor_defs Let_def

lemma inapplicable_pin_id:
  "\<not> field_applies Pin_id s \<Longrightarrow>
   upisnd_setup_set_pin_id s p = (- EINVAL, s) \<and> upisnd_setup_get_pin_id s = UPISND_PIN_INVALID"
  by (auto simp: applies_simps)

lemma inapplicable_gpio_pull:
  "\<not> field_applies Gpio_pull s \<Longrightarrow>
   upisnd_setup_set_gpio_pull s v = (- EINVAL, s)
   \<and> upisnd_setup_get_gpio_pull s = UPISND_PIN_PULL_INVALID"
  by (auto simp: applies_simps)

lemma inapplicable_gpio_dir:
  "\<not> field_applies Gpio_dir s \<Longrightarrow>
   upisnd_setup_set_gpio_dir s d = (- EINVAL, s)
   \<and> upisnd_setup_get_gpio_dir s = UPISND_PIN_DIR_INVALID"
  by (auto simp: applies_simps)

lemma inapplicable_gpio_output:
  "\<not> field_applies Gpio_output s \<Longrightarrow>
   upisnd_setup_set_gpio_output s b = (- EINVAL, s) \<and> upisnd_setup_get_gpio_output s = - EINVAL"
  by (auto simp: applies_simps)

lemma inapplicable_encoder_pin_b_id:
  "\<not> field_applies Encoder_pin_b_id s \<Longrightarrow>
   upisnd_setup_set_encoder_pin_b_id s q = (- EINVAL, s)
   \<and> upisnd_setup_get_encoder_pin_b_id s = UPISND_PIN_INVALID"
  by (auto simp: applies_simps)

lemma inapplicable_encoder_pin_b_pull:
  "\<not> field_applies Encoder_pin_b_pull s \<Longrightarrow>
   upisnd_setup_set_encoder_pin_b_pull s w = (- EINVAL, s)
   \<and> upisnd_setup_get_encoder_pin_b_pull s = UPISND_PIN_PULL_INVALID"
  by (auto simp: applies_simps)

lemma inapplicable_activity_type:
  "\<not> field_applies Activity_type s \<Longrightarrow>
   upisnd_setup_set_activity_type s a = (- EINVAL, s)
   \<and> upisnd_setup_get_activity_type s = UPISND_ACTIVITY_INVALID"
  by (auto simp: applies_simps)

text \<open>
  Claim C5.  For every descriptor and every field accessor: when the field does not apply
  to the type tag (and, for pull and output level, the direction) the descriptor holds, the
  setter fails with \<open>-EINVAL\<close> and returns the descriptor as it was, and the getter
  returns its invalid sentinel (\<open>-EINVAL\<close> for the output level).
\<close>

theorem C5_inapplicable_field_rejected:
  "(\<not> field_applies Pin_id s \<longrightarrow>
      upisnd_setup_set_pin_id s p = (- EINVAL, s)
      \<and> upisnd_setup_get_pin_id s = UPISND_PIN_INVALID)
   \<and> (\<not> field_applies Gpio_pull s \<longrightarrow>
      upisnd_setup_set_gpio_pull s v = (- EINVAL, s)
      \<and> upisnd_setup_get_gpio_pull s = UPISND_PIN_PULL_INVALID)
   \<and> (\<not> field_applies Gpio_dir s \<longrightarrow>
      upisnd_setup_set_gpio_dir s d = (- EINVAL, s)
      \<and> upisnd_setup_get_gpio_dir s = UPISND_PIN_DIR_INVALID)
   \<and> (\<not> field_applies Gpio_output s \<longrightarrow>
      upisnd_setup_set_gpio_output s b = (- EINVAL, s)
      \<and> upisnd_setup_get_gpio_output s = - EINVAL)
   \<and> (\<not> field_applies Encoder_pin_b_id s \<longrightarrow>
      upisnd_setup_set_encoder_pin_b_id s q = (- EINVAL, s)
      \<and> upisnd_setup_get_encoder_pin_b_id s = UPISND_PIN_INVALID)
   \<and> (\<not> field_applies Encoder_pin_b_pull s \<longrightarrow>
      upisnd_setup_set_encoder_pin_b_pull s w = (- EINVAL, s)
      \<and> upisnd_setup_get_encoder_pin_b_pull s = UPISND_PIN_PULL_INVALID)
   \<and> (\<not> field_applies Activity_type s \<longrightarrow>
      upisnd_setup_set_activity_type s a = (- EINVAL, s)
      \<and> upisnd_setup_get_activity_type s = UPISND_ACTIVITY_INVALID)"
  using inapplicable_pin_id[of s p] inapplicable_gpio_pull[of s v] inapplicable_gpio_dir[of s d]
    inapplicable_gpio_output[of s b] inapplicable_encoder_pin_b_id[of s q]
    inapplicable_encoder_pin_b_pull[of s w] inapplicable_activity_type[of s a]
  by blast

lemma applies_at_none: "\<not> field_applies f 0"
  by (cases f) (simp_all add: is_gpio_with_dir_def setup_accessor_defs internal_field_defs
      field_get_zero upisnd_consts)

theorem C5_inapplicable_field_rejected_witness:
  "\<not> field_applies Pin_id 0 \<and> \<not> field_applies Gpio_pull 0 \<and> \<not> field_applies Gpio_dir 0
   \<and> \<not> field_applies Gpio_output 0 \<and> \<not> field_applies Encoder_pin_b_id 0
   \<and> \<not> field_applies Encoder_pin_b_pull 0 \<and> \<not> field_applies Activity_type 0
   \<and> upisnd_setup_set_pin_id 0 UPISND_PIN_B03 = (- EINVAL, 0)
   \<and> upisnd_setup_get_pin_id 0 = UPISND_PIN_INVALID
   \<and> upisnd_setup_set_gpio_pull 0 UPISND_PIN_PULL_UP = (- EINVAL, 0)
   \<and> upisnd_setup_get_gpio_pull 0 = UPISND_PIN_PULL_INVALID
   \<and> upisnd_setup_set_gpio_dir 0 UPISND_PIN_DIR_OUTPUT = (- EINVAL, 0)
   \<and> upisnd_setup_get_gpio_dir 0 = UPISND_PIN_DIR_INVALID
   \<and> upisnd_setup_set_gpio_output 0 True = (- EINVAL, 0)
   \<and> upisnd_setup_get_gpio_output 0 = - EINVAL
   \<and> upisnd_setup_set_encoder_pin_b_id 0 UPISND_PIN_B04 = (- EINVAL, 0)
   \<and> upisnd_setup_get_encoder_pin_b_id 0 = UPISND_PIN_INVALID
   \<and> upisnd_setup_set_encoder_pin_b_pull 0 UPISND_PIN_PULL_DOWN = (- EINVAL, 0)
   \<and> upisnd_setup_get_encoder_pin_b_pull 0 = UPISND_PIN_PULL_INVALID
   \<and> upisnd_setup_set_activity_type 0 UPISND_ACTIVITY_MIDI_INPUT = (- EINVAL, 0)
   \<and> upisnd_setup_get_activity_type 0 = UPISND_ACTIVITY_INVALID"
  using applies_at_none
    C5_inapplicable_field_rejected[of 0 UPISND_PIN_B03 UPISND_PIN_PULL_UP UPISND_PIN_DIR_OUTPUT
      True UPISND_PIN_B04 UPISND_PIN_PULL_DOWN UPISND_ACTIVITY_MIDI_INPUT]
  by blast

text \<open>The examples the claim names: the pull of a GPIO output, the second pin of a GPIO.\<close>

lemma gpio_output_has_no_pull:
  "upisnd_setup_get_element_type 8195 = UPISND_ELEMENT_TYPE_GPIO
   \<and> upisnd_setup_get_gpio_dir 8195 = UPISND_PIN_DIR_OUTPUT
   \<and> upisnd_setup_set_gpio_pull 8195 UPISND_PIN_PULL_UP = (- EINVAL, 8195)
   \<and> upisnd_setup_get_gpio_pull 8195 = UPISND_PIN_PULL_INVALID
   \<and> upisnd_setup_set_encoder_pin_b_id 8195 UPISND_PIN_B04 = (- EINVAL, 8195)
   \<and> upisnd_setup_get_encoder_pin_b_id 8195 = UPISND_PIN_INVALID"
  by (simp add: setup_accessor_defs internal_field_defs field_get_def field_mask_def upisnd_consts)


subsection \<open>Values outside an enumeration\<close>

text \<open>
  Claim C6 as it is stated fails: on a GPIO descriptor the direction 3, the pull
  \<open>UPISND_PIN_PULL_INVALID\<close> and the pin id 37 are all accepted with status 0, and the
  descriptor changes: the direction bit becomes 1, the pull field 3, the pin field 37.
\<close>

theorem C6_out_of_range_counterexample:
  "\<not> valid_dir 3 \<and> \<not> valid_pull (- 1) \<and> \<not> valid_pin 37
   \<and> upisnd_setup_set_gpio_dir 3 3 = (0, 8195)
   \<and> upisnd_setup_set_gpio_pull 3 (- 1) = (0, 6147)
   \<and> upisnd_setup_set_pin_id 3 37 = (0, 299)"
  by (simp add: valid_dir_def valid_pull_def valid_pin_def setup_accessor_defs internal_field_defs field_get_def field_set_def
      field_mask_def upisnd_consts)

lemma stores_masked_field_set:
  assumes "sh + b \<le> 32"
  shows "stores_masked sh b s v (0, field_set sh b s v)"
proof -
  have "min b (32 - sh) = b" using assms by arith
  then show ?thesis by (simp add: stores_masked_def field_get_set field_set_outside)
qed

text \<open>
  Claim C6, as the code has it.  Only \<open>upisnd_setup_set_element_type\<close> checks the range
  of its value: a type below 0 or above 4 is refused with \<open>-EINVAL\<close> and the descriptor
  is returned unchanged.  Every other setter of an enumeration or pin field, when the field
  applies, accepts every value: it returns 0, the field holds the low bits of the value
  (8 bits of a pin id, 2 of a pull or activity kind, 1 of a direction) and the bits outside
  the field are as before.
\<close>

theorem C6_setters_mask_values:
  "(sint t < 0 \<or> 5 \<le> sint t \<longrightarrow> upisnd_setup_set_element_type s t = (- EINVAL, s))
   \<and> (field_applies Pin_id s \<longrightarrow>
        stores_masked 3 8 s (scast p) (upisnd_setup_set_pin_id s p))
   \<and> (field_applies Gpio_pull s \<longrightarrow> stores_masked 11 2 s v (upisnd_setup_set_gpio_pull s v))
   \<and> (field_applies Gpio_dir s \<longrightarrow> stores_masked 13 1 s d (upisnd_setup_set_gpio_dir s d))
   \<and> (field_applies Encoder_pin_b_id s \<longrightarrow>
        stores_masked 13 8 s (scast q) (upisnd_setup_set_encoder_pin_b_id s q))
   \<and> (field_applies Encoder_pin_b_pull s \<longrightarrow>
        stores_masked 21 2 s w (upisnd_setup_set_encoder_pin_b_pull s w))
   \<and> (field_applies Activity_type s \<longrightarrow>
        stores_masked 11 2 s a (upisnd_setup_set_activity_type s a))"
  by (auto simp: applies_simps internal_field_defs stores_masked_field_set upisnd_consts)


theorem C6_setters_mask_values_witness:
  "sint (- 1 :: 32 word) < 0 \<and> field_applies Pin_id 1 \<and> field_applies Gpio_pull 1
   \<and> field_applies Gpio_dir 3 \<and> field_applies Encoder_pin_b_id 1
   \<and> field_applies Encoder_pin_b_pull 1 \<and> field_applies Activity_type 4
   \<and> upisnd_setup_set_element_type 1 (- 1) = (- EINVAL, 1)
   \<and> stores_masked 3 8 1 (scast (37 :: 8 word)) (upisnd_setup_set_pin_id 1 37)
   \<and> stores_masked 11 2 1 7 (upisnd_setup_set_gpio_pull 1 7)
   \<and> stores_masked 13 1 3 3 (upisnd_setup_set_gpio_dir 3 3)
   \<and> stores_masked 13 8 1 (scast (- 1 :: 8 word)) (upisnd_setup_set_encoder_pin_b_id 1 (- 1))
   \<and> stores_masked 21 2 1 5 (upisnd_setup_set_encoder_pin_b_pull 1 5)
   \<and> stores_masked 11 2 4 2 (upisnd_setup_set_activity_type 4 2)"
proof -
  have h: "sint (- 1 :: 32 word) < 0" "field_applies Pin_id 1" "field_applies Gpio_pull 1"
    "field_applies Gpio_dir 3" "field_applies Encoder_pin_b_id 1"
    "field_applies Encoder_pin_b_pull 1" "field_applies Activity_type 4"
    by (simp_all add: is_gpio_with_dir_def setup_accessor_defs internal_field_defs
        field_get_def field_mask_def upisnd_consts)
  show ?thesis
    using h C6_setters_mask_values[of "- 1" 1 37 7 _ "- 1" 5]
      C6_setters_mask_values[of _ 3 _ _ 3] C6_setters_mask_values[of _ 4 _ _ _ _ _ 2]
    by blast
qed


subsection \<open>Element names\<close>

lemma strlen_int_length: "length s < 2 ^ 31 \<Longrightarrow> strlen_int s = int (length s)"
  unfolding strlen_int_def by (simp add: signed_of_nat signed_take_bit_int_eq_self)

text \<open>
  Claim C9.  For a string shorter than \<open>2^31\<close> bytes, whose length the \<open>int\<close> of the
  source holds: \<open>upisnd_validate_element_name\<close> accepts it, returning its length, exactly
  when the string is 1 to 63 bytes long and holds no \<open>/\<close>; every other such string (the
  empty one, one of 64 bytes or more, one with a path separator) is rejected with -1.
\<close>

theorem C9_name_validation:
  assumes "length s < 2 ^ 31"
  shows
    "(upisnd_validate_element_name (Some s) = int (length s))
       = (1 \<le> length s \<and> length s \<le> 63 \<and> CHR ''/'' \<notin> set s)
     \<and> (upisnd_validate_element_name (Some s) = - 1)
       = (\<not> (1 \<le> length s \<and> length s \<le> 63 \<and> CHR ''/'' \<notin> set s))"
  using assms
  by (cases s) (auto simp: upisnd_validate_element_name_def upisnd_consts strlen_int_length)

theorem C9_name_validation_witness:
  "length ''gpio1'' < 2 ^ 31
   \<and> upisnd_validate_element_name (Some ''gpio1'') = 5
   \<and> upisnd_validate_element_name (Some ''a/b'') = - 1
   \<and> upisnd_validate_element_name (Some []) = - 1
   \<and> upisnd_validate_element_name (Some (replicate 63 CHR ''a'')) = 63
   \<and> upisnd_validate_element_name (Some (replicate 64 CHR ''a'')) = - 1"
  using C9_name_validation[of "''gpio1''"] C9_name_validation[of "''a/b''"]
    C9_name_validation[of "[]"] C9_name_validation[of "replicate 63 CHR ''a''"]
    C9_name_validation[of "replicate 64 CHR ''a''"]
  by simp

text \<open>
  Beyond that length the conversion to \<open>int\<close> shows: a name of \<open>2^32 + 5\<close> bytes without
  \<open>/\<close> is accepted with the answer 5, and for one of \<open>2^31\<close> bytes the answer is the
  negative number the conversion gives.
\<close>

lemma validate_element_name_wraps:
  "upisnd_validate_element_name (Some (replicate (2 ^ 32 + 5) CHR ''a'')) = 5"
  by (simp add: upisnd_validate_element_name_def strlen_int_def upisnd_consts)

lemma validate_element_name_negative:
  "upisnd_validate_element_name (Some (replicate (2 ^ 31) CHR ''a'')) = - (2 ^ 31)"
  by (simp add: upisnd_validate_element_name_def strlen_int_def upisnd_consts)


lemma validate_element_name_NULL: "upisnd_validate_element_name None = - 1"
  by (simp add: upisnd_validate_element_name_def)

subsection \<open>Opening an attribute file\<close>

lemma word_of_nat_less_2000:
  "n \<le> 2000 \<Longrightarrow> (word_of_nat n :: 32 word) < 2000 \<longleftrightarrow> n < 2000"
  by (simp add: word_less_nat_alt unsigned_of_nat take_bit_nat_eq_self)

lemma retries_Suc: "retries path (Suc n) = [Sys_open path, Sys_usleep 1000] @ retries path n"
  by (simp add: retries_def)

lemma retriable_errno:
  assumes "env_attr_open env j path = not_found \<or> env_attr_open env j path = permission_denied"
  obtains e where "env_attr_open env j path = Open_failed e" "int e = ENOENT \<or> int e = EACCES"
  using assms by (auto simp: not_found_def permission_denied_def upisnd_consts)

lemma loop_step:
  assumes "env_attr_open env j path = Open_failed e" "int e = ENOENT \<or> int e = EACCES"
    and "j < 2000" "clock_ms w = st + word_of_nat j"
  shows "upisnd_element_attr_open_loop env path st j w =
     (if Suc j < 2000
      then upisnd_element_attr_open_loop env path st (Suc j)
             (w\<lparr>trace := trace w @ [Sys_open path, Sys_usleep 1000], errno := int e,
                clock_ms := st + word_of_nat (Suc j)\<rparr>)
      else (- 1, w\<lparr>trace := trace w @ [Sys_open path, Sys_usleep 1000], errno := int e,
                    clock_ms := st + word_of_nat (Suc j)\<rparr>))"
proof -
  let ?w2 = "usleep 1000 (attr_open_failed path e w)"
  have clk: "clock_ms ?w2 = st + word_of_nat (Suc j)"
    using assms(4) by (simp add: usleep_def attr_open_failed_def)
  have test: "upisnd_get_ms ?w2 - st < UPISND_TIMEOUT_MS \<longleftrightarrow> Suc j < 2000"
    using word_of_nat_less_2000[of "Suc j"] assms(3)
    by (simp add: upisnd_get_ms_def clk UPISND_TIMEOUT_MS_def)
  have w2: "?w2 = w\<lparr>trace := trace w @ [Sys_open path, Sys_usleep 1000], errno := int e,
                clock_ms := st + word_of_nat (Suc j)\<rparr>"
    using assms(4) by (simp add: usleep_def attr_open_failed_def)
  have h: "errno (attr_open_failed path e w) = ENOENT
      \<or> errno (attr_open_failed path e w) = EACCES"
    using assms(2) by (simp add: attr_open_failed_def)
  show ?thesis
    apply (subst upisnd_element_attr_open_loop.simps)
    apply (simp only: assms(1) open_result.case h if_True test)
    apply (simp only: w2 Suc_eq_plus1)
    done
qed

lemma loop_stop:
  assumes fails: "\<And>i. i < K \<Longrightarrow>
      env_attr_open env i path = not_found \<or> env_attr_open env i path = permission_denied"
    and stop: "env_attr_open env K path \<noteq> not_found"
      "env_attr_open env K path \<noteq> permission_denied"
    and K: "K < 2000"
  shows "j \<le> K \<Longrightarrow> clock_ms w = st + word_of_nat j \<Longrightarrow>
     upisnd_element_attr_open_loop env path st j w =
       (case env_attr_open env K path of Opened fd \<Rightarrow> int fd | Open_failed e \<Rightarrow> - 1,
        w\<lparr>trace := trace w @ retries path (K - j) @ [Sys_open path],
          errno := failed_errno (env_attr_open env K path),
          clock_ms := st + word_of_nat K\<rparr>)"
proof (induction "K - j" arbitrary: j w)
  case 0
  then have j: "j = K" by simp
  show ?case
  proof (cases "env_attr_open env K path")
    case (Opened fd)
    with 0 j show ?thesis
      by (subst upisnd_element_attr_open_loop.simps)
        (simp add: attr_opened_def retries_def failed_errno_def)
  next
    case (Open_failed e)
    with stop have "int e \<noteq> ENOENT" "int e \<noteq> EACCES"
      by (auto simp: not_found_def permission_denied_def upisnd_consts)
    with 0 j Open_failed show ?thesis
      by (subst upisnd_element_attr_open_loop.simps)
        (simp add: attr_open_failed_def retries_def failed_errno_def)
  qed
next
  case (Suc n)
  then have jK: "j < K" by simp
  from fails[OF jK] obtain e where e: "env_attr_open env j path = Open_failed e"
    "int e = ENOENT \<or> int e = EACCES"
    by (rule retriable_errno)
  let ?w2 = "w\<lparr>trace := trace w @ [Sys_open path, Sys_usleep 1000], errno := int e,
                clock_ms := st + word_of_nat (Suc j)\<rparr>"
  have j2: "j < 2000" "Suc j < 2000" using jK K by simp_all
  have "n = K - Suc j" using Suc.hyps(2) by simp
  from Suc.hyps(1)[OF this, of ?w2] jK
  have ih: "upisnd_element_attr_open_loop env path st (Suc j) ?w2 =
       (case env_attr_open env K path of Opened fd \<Rightarrow> int fd | Open_failed e \<Rightarrow> - 1,
        ?w2\<lparr>trace := trace ?w2 @ retries path (K - Suc j) @ [Sys_open path],
          errno := failed_errno (env_attr_open env K path),
          clock_ms := st + word_of_nat K\<rparr>)"
    by simp
  have r1: "K - j = Suc (K - Suc j)" using jK by simp
  show ?case
    unfolding loop_step[OF e j2(1) Suc.prems(2)] using j2(2) ih
    by (simp add: r1 retries_Suc)
qed

lemma loop_timeout:
  assumes fails: "\<And>i. i < 2000 \<Longrightarrow>
      env_attr_open env i path = not_found \<or> env_attr_open env i path = permission_denied"
  shows "j < 2000 \<Longrightarrow> clock_ms w = st + word_of_nat j \<Longrightarrow>
     upisnd_element_attr_open_loop env path st j w =
       (- 1, w\<lparr>trace := trace w @ retries path (2000 - j),
               errno := failed_errno (env_attr_open env 1999 path),
               clock_ms := st + 2000\<rparr>)"
proof (induction "1999 - j" arbitrary: j w)
  case 0
  then have j: "j = 1999" by simp
  have "env_attr_open env 1999 path = not_found \<or> env_attr_open env 1999 path = permission_denied"
    using fails[of 1999] by simp
  then obtain e where e: "env_attr_open env 1999 path = Open_failed e"
    "int e = ENOENT \<or> int e = EACCES"
    by (rule retriable_errno)
  show ?case
    using loop_step[OF e _ "0.prems"(2)[unfolded j]]
    by (simp add: j retries_def failed_errno_def e)
next
  case (Suc n)
  then have j2: "j < 2000" "Suc j < 2000" by simp_all
  from fails[OF j2(1)] obtain e where e: "env_attr_open env j path = Open_failed e"
    "int e = ENOENT \<or> int e = EACCES"
    by (rule retriable_errno)
  let ?w2 = "w\<lparr>trace := trace w @ [Sys_open path, Sys_usleep 1000], errno := int e,
                clock_ms := st + word_of_nat (Suc j)\<rparr>"
  have "n = 1999 - Suc j" using Suc.hyps(2) by simp
  from Suc.hyps(1)[OF this j2(2), of ?w2]
  have ih: "upisnd_element_attr_open_loop env path st (Suc j) ?w2 =
       (- 1, ?w2\<lparr>trace := trace ?w2 @ retries path (2000 - Suc j),
               errno := failed_errno (env_attr_open env 1999 path),
               clock_ms := st + 2000\<rparr>)"
    by simp
  have r2: "2000 - j = Suc (2000 - Suc j)" using j2 by simp
  show ?case
    unfolding loop_step[OF e j2(1) Suc.prems(2)] using j2(2) ih
    by (simp add: r2 retries_Suc)
qed

lemma first_attempts_failD:
  "first_attempts_fail rs K env path \<Longrightarrow> i < K \<Longrightarrow> env_attr_open env i path \<in> set rs"
  by (simp add: first_attempts_fail_def list_all_iff)

lemma attr_open_live:
  assumes "nodes w a = Some nd" "ctxs w (ctx nd) = Some c"
    and "upisnd_element_path (sysfs_base c) (name nd) attr = (n, path)" "0 \<le> n"
  shows "upisnd_element_attr_open env attr (Some a) w =
           Some (upisnd_element_attr_open_loop env path (clock_ms w) 0 w)"
  using assms by (simp add: upisnd_element_attr_open_def upisnd_get_ms_def)

lemma attr_open_timeout:
  assumes live: "nodes w a = Some nd" "ctxs w (ctx nd) = Some c"
    and path: "upisnd_element_path (sysfs_base c) (name nd) attr = (n, path)" "0 \<le> n"
    and fails: "first_attempts_fail [not_found, permission_denied] 2000 env path"
  shows "upisnd_element_attr_open env attr (Some a) w =
     Some (- 1, w\<lparr>trace := trace w @ retries path 2000,
                  errno := failed_errno (env_attr_open env 1999 path),
                  clock_ms := clock_ms w + 2000\<rparr>)"
proof -
  have f: "\<And>i. i < 2000 \<Longrightarrow>
      env_attr_open env i path = not_found \<or> env_attr_open env i path = permission_denied"
    using first_attempts_failD[OF fails] by auto
  show ?thesis
    using loop_timeout[OF f, of 0 w "clock_ms w"]
    by (simp add: attr_open_live[OF live path])
qed

lemma first_attempts_fail_less:
  "first_attempts_fail rs K env path \<Longrightarrow> K' \<le> K \<Longrightarrow> first_attempts_fail rs K' env path"
  by (auto simp: first_attempts_fail_def list_all_iff)

lemma attr_open_run:
  assumes live: "nodes w a = Some nd" "ctxs w (ctx nd) = Some c"
    and path: "upisnd_element_path (sysfs_base c) (name nd) attr = (n, path)" "0 \<le> n"
    and fails: "first_attempts_fail [not_found, permission_denied] K env path"
    and stop: "env_attr_open env K path \<noteq> not_found"
      "env_attr_open env K path \<noteq> permission_denied"
  shows "upisnd_element_attr_open env attr (Some a) w =
     Some (if K * backoff_ms < unat UPISND_TIMEOUT_MS
        then (case env_attr_open env K path of Opened fd \<Rightarrow> int fd | Open_failed e \<Rightarrow> - 1,
              w\<lparr>trace := trace w @ retries path K @ [Sys_open path],
                errno := failed_errno (env_attr_open env K path),
                clock_ms := clock_ms w + word_of_nat (K * backoff_ms)\<rparr>)
        else (- 1, w\<lparr>trace := trace w @ retries path 2000,
                      errno := failed_errno (env_attr_open env 1999 path),
                      clock_ms := clock_ms w + 2000\<rparr>))"
proof (cases "K < 2000")
  case True
  have f: "\<And>i. i < K \<Longrightarrow>
      env_attr_open env i path = not_found \<or> env_attr_open env i path = permission_denied"
    using first_attempts_failD[OF fails] by auto
  show ?thesis
    using loop_stop[OF f stop True, of 0 w "clock_ms w"] True
    by (simp add: attr_open_live[OF live path] backoff_ms_def UPISND_TIMEOUT_MS_def)
next
  case False
  then have "first_attempts_fail [not_found, permission_denied] 2000 env path"
    using first_attempts_fail_less[OF fails, of 2000] by simp
  from attr_open_timeout[OF live path this] False show ?thesis
    by (simp add: backoff_ms_def UPISND_TIMEOUT_MS_def)
qed

lemma attr_open_retry:
  assumes live: "nodes w a = Some nd" "ctxs w (ctx nd) = Some c"
    and path: "upisnd_element_path (sysfs_base c) (name nd) attr = (n, path)" "0 \<le> n"
    and fails: "first_attempts_fail [not_found, permission_denied] K env path"
    and ok: "env_attr_open env K path = Opened fd"
  shows "upisnd_element_attr_open env attr (Some a) w =
     Some (if K * backoff_ms < unat UPISND_TIMEOUT_MS
        then (int fd, w\<lparr>trace := trace w @ retries path K @ [Sys_open path],
                        errno := 0, clock_ms := clock_ms w + word_of_nat (K * backoff_ms)\<rparr>)
        else (- 1, w\<lparr>trace := trace w @ retries path 2000,
                      errno := failed_errno (env_attr_open env 1999 path),
                      clock_ms := clock_ms w + 2000\<rparr>))"
  using attr_open_run[OF live path fails, of ] ok
  by (simp add: not_found_def permission_denied_def failed_errno_def)

lemma attr_open_abort:
  assumes live: "nodes w a = Some nd" "ctxs w (ctx nd) = Some c"
    and path: "upisnd_element_path (sysfs_base c) (name nd) attr = (n, path)" "0 \<le> n"
    and fails: "first_attempts_fail [not_found, permission_denied] K env path"
    and err: "env_attr_open env K path = Open_failed e" "int e \<noteq> ENOENT" "int e \<noteq> EACCES"
  shows "upisnd_element_attr_open env attr (Some a) w =
     Some (if K * backoff_ms < unat UPISND_TIMEOUT_MS
        then (- 1, w\<lparr>trace := trace w @ retries path K @ [Sys_open path],
                      errno := int e, clock_ms := clock_ms w + word_of_nat (K * backoff_ms)\<rparr>)
        else (- 1, w\<lparr>trace := trace w @ retries path 2000,
                      errno := failed_errno (env_attr_open env 1999 path),
                      clock_ms := clock_ms w + 2000\<rparr>))"
proof -
  have "env_attr_open env K path \<noteq> not_found" "env_attr_open env K path \<noteq> permission_denied"
    using err by (auto simp: not_found_def permission_denied_def upisnd_consts)
  from attr_open_run[OF live path fails this] err(1) show ?thesis
    by (simp add: failed_errno_def)
qed

lemma timeout_errno:
  assumes "first_attempts_fail [not_found] K env path" "\<not> K < 2000"
  shows "failed_errno (env_attr_open env 1999 path) = ENOENT"
  using first_attempts_failD[OF assms(1), of 1999] assms(2)
  by (simp add: failed_errno_def not_found_def upisnd_consts)

lemma first_attempts_fail_none [simp]: "first_attempts_fail rs 0 env path"
  by (simp add: first_attempts_fail_def)

text \<open>
  Claim C7, as the code has it.  For a live element whose attribute path fits the buffer,
  on the simulated clock (every sleep lasts its millisecond, nothing else takes time), when
  each of the first \<open>K\<close> attempts to open the file fails with not-found or
  permission-denied, each is followed by one sleep of 1000 microseconds, and:
  if attempt \<open>K\<close> would succeed, the open succeeds exactly when \<open>K\<close> times the backoff of
  1 ms is below the timeout of 2000 ms; if attempt \<open>K\<close> fails with any other error, the
  open returns -1 at that attempt, with that error in \<open>errno\<close>, without a sleep and
  without another attempt, whenever \<open>K\<close> times the backoff is below the timeout; and when
  the first 2000 attempts all fail with not-found or permission-denied, or \<open>K\<close> times the
  backoff is not below the timeout, it returns -1 after 2000 attempts with \<open>errno\<close> left
  at the error of the last attempt, which is \<open>ENOENT\<close> when the attempts failed with
  not-found: no timeout error code is set.
\<close>

theorem C7_attr_open_retry:
  assumes "nodes w a = Some nd" and "ctxs w (ctx nd) = Some c"
    and "upisnd_element_path (sysfs_base c) (name nd) attr = (n, path)" and "0 \<le> n"
  shows
    "(first_attempts_fail [not_found, permission_denied] K env path
        \<and> env_attr_open env K path = Opened fd \<longrightarrow>
      upisnd_element_attr_open env attr (Some a) w =
        Some (if K * backoff_ms < unat UPISND_TIMEOUT_MS
              then (int fd, w\<lparr>trace := trace w @ retries path K @ [Sys_open path], errno := 0,
                              clock_ms := clock_ms w + word_of_nat (K * backoff_ms)\<rparr>)
              else (- 1, w\<lparr>trace := trace w @ retries path 2000,
                            errno := failed_errno (env_attr_open env 1999 path),
                            clock_ms := clock_ms w + 2000\<rparr>)))
     \<and> (first_attempts_fail [not_found, permission_denied] K env path
        \<and> env_attr_open env K path = Open_failed e \<and> int e \<noteq> ENOENT \<and> int e \<noteq> EACCES \<longrightarrow>
      upisnd_element_attr_open env attr (Some a) w =
        Some (if K * backoff_ms < unat UPISND_TIMEOUT_MS
              then (- 1, w\<lparr>trace := trace w @ retries path K @ [Sys_open path], errno := int e,
                            clock_ms := clock_ms w + word_of_nat (K * backoff_ms)\<rparr>)
              else (- 1, w\<lparr>trace := trace w @ retries path 2000,
                            errno := failed_errno (env_attr_open env 1999 path),
                            clock_ms := clock_ms w + 2000\<rparr>)))
     \<and> (first_attempts_fail [not_found, permission_denied] 2000 env path \<longrightarrow>
      upisnd_element_attr_open env attr (Some a) w =
        Some (- 1, w\<lparr>trace := trace w @ retries path 2000,
                      errno := failed_errno (env_attr_open env 1999 path),
                      clock_ms := clock_ms w + 2000\<rparr>))
     \<and> (first_attempts_fail [not_found] K env path \<and> \<not> K * backoff_ms < unat UPISND_TIMEOUT_MS \<longrightarrow>
          failed_errno (env_attr_open env 1999 path) = ENOENT)
     \<and> (env_attr_open env 0 path = Open_failed e \<and> int e \<noteq> ENOENT \<and> int e \<noteq> EACCES \<longrightarrow>
          upisnd_element_attr_open env attr (Some a) w =
            Some (- 1, w\<lparr>trace := trace w @ [Sys_open path], errno := int e\<rparr>))"
proof -
  have last: "env_attr_open env 0 path = Open_failed e \<Longrightarrow> int e \<noteq> ENOENT \<Longrightarrow> int e \<noteq> EACCES \<Longrightarrow>
      upisnd_element_attr_open env attr (Some a) w =
        Some (- 1, w\<lparr>trace := trace w @ [Sys_open path], errno := int e\<rparr>)"
    using attr_open_abort[OF assms, of 0 env e]
    by (simp add: backoff_ms_def UPISND_TIMEOUT_MS_def retries_def)
  show ?thesis
    using attr_open_retry[OF assms, of K env fd] attr_open_abort[OF assms, of K env e]
      attr_open_timeout[OF assms, of env] timeout_errno[of K env path] last
    by (simp add: backoff_ms_def UPISND_TIMEOUT_MS_def)
qed

lemma value_path_enc:
  "upisnd_element_path UPISND_SYSFS_DEFAULT_BASE_PATH ''enc'' UPISND_ELEMENT_ATTR_VALUE
     = (37, ''/sys/pisound-micro/elements/enc/value'')"
  by (simp add: upisnd_element_path_def UPISND_SYSFS_DEFAULT_BASE_PATH_def upisnd_consts)

lemma not_found_until: "first_attempts_fail [not_found] K (env_not_found_until K) p"
  by (simp add: first_attempts_fail_def list_all_iff env_not_found_until_def)

lemma not_found_until': "first_attempts_fail [not_found, permission_denied] K (env_not_found_until K) p"
  by (simp add: first_attempts_fail_def list_all_iff env_not_found_until_def)

lemma not_found_until_ok: "env_attr_open (env_not_found_until K) K p = Opened 3"
  by (simp add: env_not_found_until_def)

lemma not_found_then_error:
  "first_attempts_fail [not_found, permission_denied] K (env_not_found_then_error K e) p"
  "env_attr_open (env_not_found_then_error K e) K p = Open_failed e"
  by (simp_all add: first_attempts_fail_def list_all_iff env_not_found_then_error_def)

lemma world_with_element_live:
  "nodes (world_with_element nm) 1 = Some \<lparr>refcount = 1, name = nm, ctx = 0\<rparr>"
  "ctxs (world_with_element nm) 0 = Some (default_ctx [1])"
  by (simp_all add: world_with_element_def)

theorem C7_attr_open_retry_witness:
  "first_attempts_fail [not_found, permission_denied] 3 (env_not_found_until 3)
      ''/sys/pisound-micro/elements/enc/value''
   \<and> env_attr_open (env_not_found_until 3) 3 ''/sys/pisound-micro/elements/enc/value'' = Opened 3
   \<and> upisnd_element_attr_open (env_not_found_until 3) UPISND_ELEMENT_ATTR_VALUE (Some 1)
        (world_with_element ''enc'')
      = Some (3, (world_with_element ''enc'')
           \<lparr>trace := retries ''/sys/pisound-micro/elements/enc/value'' 3
                     @ [Sys_open ''/sys/pisound-micro/elements/enc/value''],
            errno := 0, clock_ms := 3\<rparr>)
   \<and> first_attempts_fail [not_found] 2000 (env_not_found_until 2000)
        ''/sys/pisound-micro/elements/enc/value''
   \<and> upisnd_element_attr_open (env_not_found_until 2000) UPISND_ELEMENT_ATTR_VALUE (Some 1)
        (world_with_element ''enc'')
      = Some (- 1, (world_with_element ''enc'')
           \<lparr>trace := retries ''/sys/pisound-micro/elements/enc/value'' 2000,
            errno := ENOENT, clock_ms := 2000\<rparr>)
   \<and> first_attempts_fail [not_found, permission_denied] 2 (env_not_found_then_error 2 5)
        ''/sys/pisound-micro/elements/enc/value''
   \<and> env_attr_open (env_not_found_then_error 2 5) 2 ''/sys/pisound-micro/elements/enc/value''
       = Open_failed 5
   \<and> upisnd_element_attr_open (env_not_found_then_error 2 5) UPISND_ELEMENT_ATTR_VALUE (Some 1)
        (world_with_element ''enc'')
      = Some (- 1, (world_with_element ''enc'')
           \<lparr>trace := retries ''/sys/pisound-micro/elements/enc/value'' 2
                     @ [Sys_open ''/sys/pisound-micro/elements/enc/value''],
            errno := 5, clock_ms := 2\<rparr>)
   \<and> env_attr_open (env_open_error 5) 0 ''/sys/pisound-micro/elements/enc/value'' = Open_failed 5
   \<and> upisnd_element_attr_open (env_open_error 5) UPISND_ELEMENT_ATTR_VALUE (Some 1)
        (world_with_element ''enc'')
      = Some (- 1, (world_with_element ''enc'')
           \<lparr>trace := [Sys_open ''/sys/pisound-micro/elements/enc/value''], errno := 5\<rparr>)"
proof -
  let ?w = "world_with_element ''enc''"
  let ?p = "''/sys/pisound-micro/elements/enc/value''"
  have path: "upisnd_element_path (sysfs_base (default_ctx [1]))
      (name \<lparr>refcount = 1, name = ''enc'', ctx = 0\<rparr>) UPISND_ELEMENT_ATTR_VALUE = (37, ?p)"
    using value_path_enc by (simp add: default_ctx_def)
  have c: "ctxs ?w (ctx \<lparr>refcount = 1, name = ''enc'', ctx = 0\<rparr>) = Some (default_ctx [1])"
    by (simp add: world_with_element_live)
  note inst = C7_attr_open_retry[OF world_with_element_live(1) c path]
  have tr: "trace ?w = []" "clock_ms ?w = 0" by (simp_all add: world_with_element_def)
  have e5: "env_attr_open (env_open_error 5) 0 ?p = Open_failed 5"
    by (simp add: env_open_error_def)
  show ?thesis
    using inst[of 3 "env_not_found_until 3" 3] inst[of 2000 "env_not_found_until 2000" 3]
      inst[of 2 "env_not_found_then_error 2 5" _ 5]
      inst[of _ "env_open_error 5" _ 5] not_found_until[of 2000 ?p] not_found_until'[of 3 ?p]
      not_found_until'[of 2000 ?p] not_found_until_ok[of 3 ?p] not_found_until_ok[of 2000 ?p] e5
      not_found_then_error[of 2 5 ?p]
    by (simp add: tr backoff_ms_def UPISND_TIMEOUT_MS_def upisnd_consts)
qed

text \<open>
  Claim C7 as it is stated fails in its last part: with not-found for the first 2000
  attempts the operation fails, and the error it leaves in \<open>errno\<close> is \<open>ENOENT\<close>, not a
  timeout error.
\<close>

theorem C7_timeout_error_counterexample:
  "first_attempts_fail [not_found] 2000 (env_not_found_until 2000)
      ''/sys/pisound-micro/elements/enc/value''
   \<and> env_attr_open (env_not_found_until 2000) 2000 ''/sys/pisound-micro/elements/enc/value''
       = Opened 3
   \<and> \<not> 2000 * backoff_ms < unat UPISND_TIMEOUT_MS
   \<and> map_option fst (upisnd_element_attr_open (env_not_found_until 2000)
        UPISND_ELEMENT_ATTR_VALUE (Some 1) (world_with_element ''enc'')) = Some (- 1)
   \<and> map_option (errno \<circ> snd) (upisnd_element_attr_open (env_not_found_until 2000)
        UPISND_ELEMENT_ATTR_VALUE (Some 1) (world_with_element ''enc'')) = Some ENOENT
   \<and> ENOENT \<noteq> ETIMEDOUT"
proof -
  let ?w = "world_with_element ''enc''"
  let ?p = "''/sys/pisound-micro/elements/enc/value''"
  have path: "upisnd_element_path (sysfs_base (default_ctx [1]))
      (name \<lparr>refcount = 1, name = ''enc'', ctx = 0\<rparr>) UPISND_ELEMENT_ATTR_VALUE = (37, ?p)"
    using value_path_enc by (simp add: default_ctx_def)
  have c: "ctxs ?w (ctx \<lparr>refcount = 1, name = ''enc'', ctx = 0\<rparr>) = Some (default_ctx [1])"
    by (simp add: world_with_element_live)
  have "upisnd_element_attr_open (env_not_found_until 2000) UPISND_ELEMENT_ATTR_VALUE (Some 1) ?w
      = Some (- 1, ?w\<lparr>trace := trace ?w @ retries ?p 2000,
                      errno := failed_errno (env_attr_open (env_not_found_until 2000) 1999 ?p),
                      clock_ms := clock_ms ?w + 2000\<rparr>)"
    using attr_open_retry[OF world_with_element_live(1) c path _ not_found_until' not_found_until_ok]
    by (simp add: backoff_ms_def UPISND_TIMEOUT_MS_def)
  then show ?thesis
    using not_found_until[of 2000 ?p] not_found_until_ok[of 2000 ?p]
    by (simp add: backoff_ms_def UPISND_TIMEOUT_MS_def failed_errno_def env_not_found_until_def
        not_found_def upisnd_consts)
qed

subsection \<open>Lookup and setup of a registered name\<close>

lemma registry_okD:
  assumes "registry_ok w ca" "ctxs w ca = Some c"
  shows "distinct (elements c)"
    and "\<And>a. a \<in> set (elements c) \<Longrightarrow> \<exists>nd. nodes w a = Some nd \<and> ctx nd = ca \<and> 1 \<le> sint (refcount nd)"
    and "distinct (map (\<lambda>a. map_option name (nodes w a)) (elements c))"
  using assms by (auto simp: registry_ok_def list_all_iff split: option.splits)

lemma find_element_hit:
  "\<forall>b\<in>set xs. h b \<noteq> None \<Longrightarrow> distinct (map (\<lambda>a. map_option name (h a)) xs) \<Longrightarrow>
   a \<in> set xs \<Longrightarrow> h a = Some nd \<Longrightarrow> find_element h (name nd) xs = Some (Some a)"
proof (induction xs)
  case Nil
  then show ?case by simp
next
  case (Cons x xs)
  show ?case
  proof (cases "x = a")
    case True
    with Cons.prems show ?thesis by simp
  next
    case False
    with Cons.prems have a: "a \<in> set xs" by simp
    from Cons.prems(1) obtain xd where xd: "h x = Some xd" by auto
    have "name xd \<noteq> name nd"
    proof
      assume "name xd = name nd"
      then have "map_option name (h x) = map_option name (h a)" using xd Cons.prems(4) by simp
      then have "map_option name (h x) \<in> (\<lambda>a. map_option name (h a)) ` set xs" using a by auto
      with Cons.prems(2) show False by simp
    qed
    with Cons xd a show ?thesis by simp
  qed
qed

lemma find_element_miss:
  "\<forall>b\<in>set xs. h b \<noteq> None \<Longrightarrow> Some nm \<notin> set (map (\<lambda>a. map_option name (h a)) xs) \<Longrightarrow>
   find_element h nm xs = Some None"
  by (induction xs) (auto split: option.splits)

lemma element_get_hit:
  assumes "upisnd_active_ctx w = Some ca" "registry_ok w ca" "ctxs w ca = Some c"
    "a \<in> set (elements c)" "nodes w a = Some nd"
    "0 \<le> upisnd_validate_element_name (Some (name nd))"
  shows "upisnd_element_get (name nd) w =
          Some (Some a, w\<lparr>nodes := (nodes w)(a \<mapsto> nd\<lparr>refcount := refcount nd + 1\<rparr>), errno := 0\<rparr>)"
proof -
  have live: "\<forall>b\<in>set (elements c). nodes w b \<noteq> None"
    using registry_okD(2)[OF assms(2,3)] by fastforce
  have "find_element (nodes w) (name nd) (elements c) = Some (Some a)"
    using find_element_hit[OF live registry_okD(3)[OF assms(2,3)] assms(4,5)] .
  then show ?thesis
    using assms by (simp add: upisnd_element_get_def upisnd_element_add_ref_def)
qed

lemma element_get_miss:
  assumes "upisnd_active_ctx w = Some ca" "registry_ok w ca" "ctxs w ca = Some c"
    "Some nm \<notin> set (registered_names w c)"
    "0 \<le> upisnd_validate_element_name (Some nm)"
  shows "upisnd_element_get nm w = Some (None, w)"
proof -
  have live: "\<forall>b\<in>set (elements c). nodes w b \<noteq> None"
    using registry_okD(2)[OF assms(2,3)] by fastforce
  have "find_element (nodes w) nm (elements c) = Some None"
    using find_element_miss[OF live] assms(4) by (simp add: registered_names_def)
  then show ?thesis
    using assms by (simp add: upisnd_element_get_def)
qed

lemma write_sync_close_ok:
  "env_write env path payload = 0 \<Longrightarrow> env_fdatasync env path = 0 \<Longrightarrow> env_close env path = 0 \<Longrightarrow>
   write_sync_close env path payload w =
     (0, w\<lparr>trace := trace w @ [Sys_write path payload, Sys_fdatasync path, Sys_close path]\<rparr>)"
  by (simp add: write_sync_close_def sys_def Let_def)

lemma commit_existing_ok:
  assumes "transaction_ok env path payload"
  shows "upisnd_setup_do_commit env path payload a True False w =
           Some (Some a, w\<lparr>trace := trace w @ transaction_calls path payload, errno := EEXIST\<rparr>)"
  using assms
  by (simp add: upisnd_setup_do_commit_def transaction_ok_def write_sync_close_ok sys_def
      transaction_calls_def)

lemma validate_valid:
  "0 \<le> upisnd_validate_element_name (Some nm) \<Longrightarrow> request_fits nm request \<Longrightarrow>
   upisnd_validate_element_name (Some nm) = int (length nm)"
  by (auto simp: upisnd_validate_element_name_def request_fits_def upisnd_consts
      strlen_int_length split: if_splits)

lemma setup_do_existing:
  assumes reg: "upisnd_active_ctx w = Some ca" "registry_ok w ca" "ctxs w ca = Some c"
    "a \<in> set (elements c)" "nodes w a = Some nd"
    "0 \<le> upisnd_validate_element_name (Some (name nd))"
    and fits: "path_fits UPISND_PATH_SETUP (sysfs_base c)" "request_fits (name nd) request"
    and ok: "transaction_ok env (setup_file (sysfs_base c)) (name nd @ '' '' @ request)"
  shows "upisnd_setup_do env (name nd) request w =
          Some (Some a, w\<lparr>nodes := (nodes w)(a \<mapsto> nd\<lparr>refcount := refcount nd + 1\<rparr>),
                          trace := trace w @ transaction_calls (setup_file (sysfs_base c))
                                     (name nd @ '' '' @ request),
                          errno := EEXIST\<rparr>)"
proof -
  have v: "upisnd_validate_element_name (Some (name nd)) = int (length (name nd))"
    using validate_valid[OF reg(6) fits(2)] .
  note commit = commit_existing_ok[OF ok, simplified]
  show ?thesis
    using reg(1,3) fits v
    by (simp add: upisnd_setup_do_def Let_def case_prod_beta path_fits_def request_fits_def
        element_get_hit[OF reg] commit setup_file_def[symmetric])
qed


lemma exists_in_sysfs_effect:
  "upisnd_element_exists_in_sysfs env base nm w =
     (probe_result env base nm, w\<lparr>trace := trace w @ probe_calls base nm\<rparr>)"
  by (simp add: upisnd_element_exists_in_sysfs_def probe_result_def probe_calls_def
      case_prod_beta)

lemma transaction_effect:
  "(if env_open env path = 0
    then write_sync_close env path payload (sys (Sys_open path) (env_open env path) w)
    else (env_open env path, sys (Sys_open path) (env_open env path) w))
   = (transaction_error env path payload,
      w\<lparr>trace := trace w @ transaction_trace env path payload,
        errno := errno (snd (if env_open env path = 0
                   then write_sync_close env path payload (sys (Sys_open path) (env_open env path) w)
                   else (env_open env path, sys (Sys_open path) (env_open env path) w)))\<rparr>)"
  by (simp add: write_sync_close_def sys_def Let_def transaction_error_def transaction_trace_def)

lemma transaction_ok_error:
  "transaction_ok env path payload \<longleftrightarrow> transaction_error env path payload = 0"
  by (auto simp: transaction_ok_def transaction_error_def)

lemma transaction_ok_trace:
  "transaction_ok env path payload \<Longrightarrow>
   transaction_trace env path payload = transaction_calls path payload"
  by (simp add: transaction_ok_def transaction_trace_def transaction_calls_def)

lemma commit_fresh_ok:
  assumes "transaction_ok env path payload" "nodes w a = Some nd" "ctxs w (ctx nd) = Some c"
  shows "upisnd_setup_do_commit env path payload a False existed w =
           Some (Some a, w\<lparr>trace := trace w @ transaction_calls path payload,
                           ctxs := (ctxs w)(ctx nd \<mapsto> c\<lparr>elements := a # elements c\<rparr>),
                           errno := (if existed then EEXIST else 0)\<rparr>)"
  using assms
  by (simp add: upisnd_setup_do_commit_def transaction_ok_def write_sync_close_ok sys_def
      transaction_calls_def upisnd_elements_prepend_def)

lemma setup_do_fresh:
  assumes reg: "upisnd_active_ctx w = Some ca" "registry_ok w ca" "ctxs w ca = Some c"
    "Some nm \<notin> set (registered_names w c)"
    "0 \<le> upisnd_validate_element_name (Some nm)"
    and fits: "path_fits UPISND_PATH_SETUP (sysfs_base c)" "request_fits nm request"
    and alloc: "env_malloc env = Some a"
    and ok: "transaction_ok env (setup_file (sysfs_base c)) (nm @ '' '' @ request)"
  shows "upisnd_setup_do env nm request w =
          Some (Some a,
            w\<lparr>nodes := (nodes w)(a \<mapsto> \<lparr>refcount = 1, name = nm, ctx = ca\<rparr>),
              trace := trace w @ probe_calls (sysfs_base c) nm
                         @ transaction_calls (setup_file (sysfs_base c)) (nm @ '' '' @ request),
              ctxs := (ctxs w)(ca \<mapsto> c\<lparr>elements := a # elements c\<rparr>),
              errno := (if probe_result env (sysfs_base c) nm then EEXIST else 0)\<rparr>)"
proof -
  have v: "upisnd_validate_element_name (Some nm) = int (length nm)"
    using validate_valid[OF reg(5) fits(2)] .
  let ?w2 = "w\<lparr>nodes := (nodes w)(a \<mapsto> \<lparr>refcount = 1, name = nm, ctx = ca\<rparr>),
               trace := trace w @ probe_calls (sysfs_base c) nm\<rparr>"
  have commit: "upisnd_setup_do_commit env (setup_file (sysfs_base c)) (nm @ CHR '' '' # request) a
      False existed ?w2 =
           Some (Some a, ?w2\<lparr>trace := trace ?w2 @ transaction_calls (setup_file (sysfs_base c)) (nm @ CHR '' '' # request),
                           ctxs := (ctxs ?w2)(ca \<mapsto> c\<lparr>elements := a # elements c\<rparr>),
                           errno := (if existed then EEXIST else 0)\<rparr>)" for existed
    using commit_fresh_ok[OF ok, of ?w2 a "\<lparr>refcount = 1, name = nm, ctx = ca\<rparr>" c existed] reg(3)
    by simp
  show ?thesis
    using reg(1,3) fits v alloc
    by (simp add: upisnd_setup_do_def Let_def case_prod_beta path_fits_def request_fits_def
        element_get_miss[OF reg] upisnd_element_alloc_def exists_in_sysfs_effect commit
        setup_file_def[symmetric])
qed

lemma registry_ok_after_fresh:
  assumes "registry_ok w ca" "ctxs w ca = Some c" "nodes w a = None"
    "Some nm \<notin> set (registered_names w c)"
  shows "registry_ok
           (w\<lparr>nodes := (nodes w)(a \<mapsto> \<lparr>refcount = 1, name = nm, ctx = ca\<rparr>), trace := tr,
              ctxs := (ctxs w)(ca \<mapsto> c\<lparr>elements := a # elements c\<rparr>), errno := e\<rparr>) ca"
proof -
  note ok = registry_okD[OF assms(1,2)]
  have fresh: "a \<notin> set (elements c)" using ok(2)[of a] assms(3) by auto
  define h where "h = (nodes w)(a \<mapsto> \<lparr>refcount = 1, name = nm, ctx = ca\<rparr>)"
  have hb: "h b = nodes w b" if "b \<in> set (elements c)" for b
    using that fresh by (auto simp: h_def)
  have ha: "h a = Some \<lparr>refcount = 1, name = nm, ctx = ca\<rparr>" by (simp add: h_def)
  have same: "map (\<lambda>b. map_option name (h b)) (elements c)
      = map (\<lambda>b. map_option name (nodes w b)) (elements c)"
    by (rule map_cong[OF refl]) (simp add: hb)
  have l: "list_all (\<lambda>b. case h b of None \<Rightarrow> False | Some nd \<Rightarrow> ctx nd = ca \<and> 1 \<le> sint (refcount nd))
      (elements c)"
    unfolding list_all_iff
  proof
    fix b assume b: "b \<in> set (elements c)"
    from ok(2)[OF b] obtain nd where "nodes w b = Some nd" "ctx nd = ca" "1 \<le> sint (refcount nd)"
      by blast
    then show "case h b of None \<Rightarrow> False | Some nd \<Rightarrow> ctx nd = ca \<and> 1 \<le> sint (refcount nd)"
      by (simp add: hb[OF b])
  qed
  have d: "distinct (map (\<lambda>b. map_option name (h b)) (elements c))"
    unfolding same by (rule ok(3))
  have n: "Some nm \<notin> set (map (\<lambda>b. map_option name (h b)) (elements c))"
    unfolding same using assms(4) by (simp add: registered_names_def)
  have "registry_ok (w\<lparr>nodes := h, trace := tr,
              ctxs := (ctxs w)(ca \<mapsto> c\<lparr>elements := a # elements c\<rparr>), errno := e\<rparr>) ca"
    unfolding registry_ok_def using l d n ok(1) fresh ha by simp
  then show ?thesis by (simp only: h_def)
qed

lemma two_setups:
  assumes reg: "upisnd_active_ctx w = Some ca" "registry_ok w ca" "ctxs w ca = Some c"
    "Some nm \<notin> set (registered_names w c)"
    "0 \<le> upisnd_validate_element_name (Some nm)"
    and fits: "path_fits UPISND_PATH_SETUP (sysfs_base c)" "request_fits nm r1"
      "request_fits nm r2"
    and alloc: "env_malloc env1 = Some b" "nodes w b = None"
    and ok: "transaction_ok env1 (setup_file (sysfs_base c)) (nm @ '' '' @ r1)"
      "transaction_ok env2 (setup_file (sysfs_base c)) (nm @ '' '' @ r2)"
  shows "Option.bind (upisnd_setup_do env1 nm r1 w) (\<lambda>(h1, w1).
           Option.bind (upisnd_setup_do env2 nm r2 w1) (\<lambda>(h2, w2).
             Some (h1, h2, map_option refcount (nodes w2 b), elements (the (ctxs w2 ca)))))
         = Some (Some b, Some b, Some 2, b # elements c)"
proof -
  let ?nd = "\<lparr>refcount = 1, name = nm, ctx = ca\<rparr>"
  let ?c1 = "c\<lparr>elements := b # elements c\<rparr>"
  let ?w1 = "w\<lparr>nodes := (nodes w)(b \<mapsto> ?nd),
              trace := trace w @ probe_calls (sysfs_base c) nm
                         @ transaction_calls (setup_file (sysfs_base c)) (nm @ '' '' @ r1),
              ctxs := (ctxs w)(ca \<mapsto> ?c1),
              errno := (if probe_result env1 (sysfs_base c) nm then EEXIST else 0)\<rparr>"
  have first: "upisnd_setup_do env1 nm r1 w = Some (Some b, ?w1)"
    using setup_do_fresh[OF reg fits(1,2) alloc(1) ok(1)] .
  have ok1: "registry_ok ?w1 ca"
    using registry_ok_after_fresh[OF reg(2,3) alloc(2) reg(4)] .
  have second: "upisnd_setup_do env2 (name ?nd) r2 ?w1 =
      Some (Some b, ?w1\<lparr>nodes := (nodes ?w1)(b \<mapsto> ?nd\<lparr>refcount := refcount ?nd + 1\<rparr>),
                        trace := trace ?w1 @ transaction_calls (setup_file (sysfs_base ?c1))
                                   (name ?nd @ '' '' @ r2),
                        errno := EEXIST\<rparr>)"
    by (rule setup_do_existing[where ca = ca and c = ?c1])
      (use reg(1,5) ok1 fits ok(2) in simp_all)
  show ?thesis
    using first second by simp
qed




text \<open>
  Claim C1.  In a context with a well-formed registry, for a valid name held by the
  registry at address \<open>a\<close>: \<open>upisnd_element_get\<close> returns \<open>a\<close> itself and nothing changes
  but the reference count of that node, one higher, and \<open>errno\<close>; so does a setup of the
  name whose request fits and whose write to the setup file goes well (it also appends that
  transaction to the trace and leaves \<open>EEXIST\<close> in \<open>errno\<close>); no node is allocated.  The
  count is the \<open>int\<close> of the source, and one higher is what \<open>__atomic_add_fetch\<close> makes
  of it: the number read from it is one more than before for every count below
  \<open>INT_MAX\<close>.  And for a valid name the registry does not hold, two setups in a row that
  go well return the same address, the one \<open>malloc\<close> gave the first, whose node then has
  reference count 2 and is listed once.
\<close>

theorem C1_same_handle:
  assumes "upisnd_active_ctx w = Some ca" and "registry_ok w ca" and "ctxs w ca = Some c"
  shows
    "(a \<in> set (elements c) \<and> nodes w a = Some nd
        \<and> 0 \<le> upisnd_validate_element_name (Some (name nd)) \<longrightarrow>
        upisnd_element_get (name nd) w =
          Some (Some a, w\<lparr>nodes := (nodes w)(a \<mapsto> nd\<lparr>refcount := refcount nd + 1\<rparr>),
                          errno := 0\<rparr>)
        \<and> (sint (refcount nd) < INT_MAX \<longrightarrow> sint (refcount nd + 1) = sint (refcount nd) + 1)
        \<and> (path_fits UPISND_PATH_SETUP (sysfs_base c) \<and> request_fits (name nd) request
             \<and> transaction_ok env (setup_file (sysfs_base c)) (name nd @ '' '' @ request) \<longrightarrow>
            upisnd_setup_do env (name nd) request w =
              Some (Some a, w\<lparr>nodes := (nodes w)(a \<mapsto> nd\<lparr>refcount := refcount nd + 1\<rparr>),
                              trace := trace w @ transaction_calls (setup_file (sysfs_base c))
                                         (name nd @ '' '' @ request),
                              errno := EEXIST\<rparr>)))
     \<and> (Some nm \<notin> set (registered_names w c) \<and> 0 \<le> upisnd_validate_element_name (Some nm)
          \<and> path_fits UPISND_PATH_SETUP (sysfs_base c) \<and> request_fits nm r1 \<and> request_fits nm r2
          \<and> env_malloc env1 = Some b \<and> nodes w b = None
          \<and> transaction_ok env1 (setup_file (sysfs_base c)) (nm @ '' '' @ r1)
          \<and> transaction_ok env2 (setup_file (sysfs_base c)) (nm @ '' '' @ r2) \<longrightarrow>
        Option.bind (upisnd_setup_do env1 nm r1 w) (\<lambda>(h1, w1).
          Option.bind (upisnd_setup_do env2 nm r2 w1) (\<lambda>(h2, w2).
            Some (h1, h2, map_option refcount (nodes w2 b), elements (the (ctxs w2 ca)))))
        = Some (Some b, Some b, Some 2, b # elements c))"
  using element_get_hit[OF assms, of a nd] setup_do_existing[OF assms, of a nd request env]
    two_setups[OF assms, of nm r1 r2 env1 b env2] sint_succ[of "refcount nd"]
  unfolding INT_MAX_def
  by blast



lemma nominal_transaction_ok: "transaction_ok (nominal_env\<lparr>env_malloc := m\<rparr>) p d"
  by (simp add: transaction_ok_def nominal_env_def)

lemma default_paths:
  "path_fits UPISND_PATH_SETUP UPISND_SYSFS_DEFAULT_BASE_PATH"
  "path_fits UPISND_PATH_UNSETUP UPISND_SYSFS_DEFAULT_BASE_PATH"
  "setup_file UPISND_SYSFS_DEFAULT_BASE_PATH = ''/sys/pisound-micro/setup''"
  "unsetup_file UPISND_SYSFS_DEFAULT_BASE_PATH = ''/sys/pisound-micro/unsetup''"
  by (simp_all add: path_fits_def setup_file_def unsetup_file_def upisnd_path_def
      UPISND_SYSFS_DEFAULT_BASE_PATH_def upisnd_consts)

lemma world_with_element_ok:
  "upisnd_active_ctx (world_with_element nm) = Some 0"
  "registry_ok (world_with_element nm) 0"
  "ctxs (world_with_element nm) 0 = Some (default_ctx [1])"
  by (simp_all add: world_with_element_def registry_ok_def default_ctx_def)

theorem C1_same_handle_witness:
  "upisnd_active_ctx (world_with_element ''enc'') = Some 0
   \<and> registry_ok (world_with_element ''enc'') 0
   \<and> ctxs (world_with_element ''enc'') 0 = Some (default_ctx [1])
   \<and> nodes (world_with_element ''enc'') 1 = Some \<lparr>refcount = 1, name = ''enc'', ctx = 0\<rparr>
   \<and> nodes (world_with_element ''enc'') 2 = None
   \<and> Some ''gpio1'' \<notin> set (registered_names (world_with_element ''enc'') (default_ctx [1]))
   \<and> upisnd_element_get ''enc'' (world_with_element ''enc'')
       = Some (Some 1, (world_with_element ''enc'')
           \<lparr>nodes := [1 \<mapsto> \<lparr>refcount = 2, name = ''enc'', ctx = 0\<rparr>], errno := 0\<rparr>)
   \<and> upisnd_setup_do nominal_env ''enc'' ''encoder B03 pull_up B04 pull_down''
        (world_with_element ''enc'')
       = Some (Some 1, (world_with_element ''enc'')
           \<lparr>nodes := [1 \<mapsto> \<lparr>refcount = 2, name = ''enc'', ctx = 0\<rparr>],
            trace := transaction_calls ''/sys/pisound-micro/setup''
                       ''enc encoder B03 pull_up B04 pull_down'',
            errno := EEXIST\<rparr>)
   \<and> Option.bind (upisnd_setup_do (nominal_env\<lparr>env_malloc := Some 2\<rparr>) ''gpio1''
          ''gpio B03 output 1'' (world_with_element ''enc'')) (\<lambda>(h1, w1).
        Option.bind (upisnd_setup_do nominal_env ''gpio1'' ''gpio B03 output 1'' w1) (\<lambda>(h2, w2).
          Some (h1, h2, map_option refcount (nodes w2 2), elements (the (ctxs w2 0)))))
       = Some (Some 2, Some 2, Some 2, [2, 1])"
proof -
  let ?w = "world_with_element ''enc''"
  let ?nd = "\<lparr>refcount = 1, name = ''enc'', ctx = 0\<rparr>"
  have n: "nodes ?w 1 = Some ?nd" "nodes ?w 2 = None" "trace ?w = []"
    by (simp_all add: world_with_element_def)
  have v: "0 \<le> upisnd_validate_element_name (Some ''enc'')"
    "0 \<le> upisnd_validate_element_name (Some ''gpio1'')"
    by (simp_all add: upisnd_validate_element_name_def upisnd_consts strlen_int_length)
  have r: "request_fits ''enc'' ''encoder B03 pull_up B04 pull_down''"
    "request_fits ''gpio1'' ''gpio B03 output 1''"
    by (simp_all add: request_fits_def upisnd_consts)
  have a: "Some ''gpio1'' \<notin> set (registered_names ?w (default_ctx [1]))"
    by (simp add: registered_names_def world_with_element_def default_ctx_def)
  have b: "sysfs_base (default_ctx els) = UPISND_SYSFS_DEFAULT_BASE_PATH"
    "elements (default_ctx els) = els" for els
    by (simp_all add: default_ctx_def)
  have f: "(nodes ?w)(Suc 0 \<mapsto> x) = [Suc 0 \<mapsto> x]" for x
    by (simp add: world_with_element_def)
  show ?thesis
    using C1_same_handle[OF world_with_element_ok(1)[of "''enc''"]
        world_with_element_ok(2)[of "''enc''"] world_with_element_ok(3)[of "''enc''"],
        where a = 1 and nd = ?nd and request = "''encoder B03 pull_up B04 pull_down''"
        and env = nominal_env and nm = "''gpio1''" and ?r1.0 = "''gpio B03 output 1''"
        and ?r2.0 = "''gpio B03 output 1''" and ?env1.0 = "nominal_env\<lparr>env_malloc := Some 2\<rparr>"
        and b = 2 and ?env2.0 = nominal_env]
      n v r a nominal_transaction_ok[of "env_malloc nominal_env"] nominal_transaction_ok[of "Some 2"]
      world_with_element_ok[of "''enc''"]
    by (simp add: b default_paths f)
qed

subsection \<open>Release\<close>

lemma writes_of_append [simp]: "writes_of (xs @ ys) = writes_of xs @ writes_of ys"
  by (simp add: writes_of_def)

lemma opens_of_append [simp]: "opens_of (xs @ ys) = opens_of xs @ opens_of ys"
  by (simp add: opens_of_def)

lemma writes_of_transaction_trace:
  "writes_of (transaction_trace env path payload)
     = (if env_open env path = 0 then [(path, payload)] else [])"
  by (simp add: transaction_trace_def writes_of_def)

lemma opens_of_transaction_trace: "opens_of (transaction_trace env path payload) = [path]"
  by (simp add: transaction_trace_def opens_of_def)

lemma writes_of_release_calls:
  "writes_of (release_calls env base nm)
     = (if path_fits UPISND_PATH_UNSETUP base \<and> env_open env (unsetup_file base) = 0
        then [(unsetup_file base, nm)] else [])"
  by (simp add: release_calls_def writes_of_transaction_trace) (simp add: writes_of_def)

lemma opens_of_release_calls:
  "opens_of (release_calls env base nm)
     = (if path_fits UPISND_PATH_UNSETUP base then [unsetup_file base] else [])"
  by (simp add: release_calls_def opens_of_transaction_trace) (simp add: opens_of_def)

lemma unsetup_do_effect:
  "snd (upisnd_unsetup_do env base nm w)
     = w\<lparr>trace := trace w @ release_calls env base nm,
         errno := errno (snd (upisnd_unsetup_do env base nm w))\<rparr>"
  by (simp add: upisnd_unsetup_do_def write_sync_close_def sys_def release_calls_def
      transaction_trace_def path_fits_def unsetup_file_def case_prod_beta Let_def)

lemma unref_zero:
  assumes "nodes w a = Some nd" "ctxs w (ctx nd) = Some c" "a \<in> set (elements c)"
    "refcount nd = 1"
  shows "upisnd_element_unref env (Some (Some a)) w =
     Some (Some None,
       w\<lparr>nodes := (nodes w)(a := None),
         ctxs := (ctxs w)(ctx nd \<mapsto> c\<lparr>elements := remove1 a (elements c)\<rparr>),
         trace := trace w @ release_calls env (sysfs_base c) (name nd),
         errno := 0\<rparr>)"
proof -
  let ?w1 = "w\<lparr>nodes := (nodes w)(a \<mapsto> nd\<lparr>refcount := refcount nd - 1\<rparr>)\<rparr>"
  let ?w2 = "snd (upisnd_unsetup_do env (sysfs_base c) (name nd) ?w1)"
  have w2: "?w2 = ?w1\<lparr>trace := trace ?w1 @ release_calls env (sysfs_base c) (name nd),
                      errno := errno ?w2\<rparr>"
    by (rule unsetup_do_effect)
  have rm: "upisnd_elements_remove a ?w2 =
      Some (0, w\<lparr>nodes := (nodes w)(a := None),
         ctxs := (ctxs w)(ctx nd \<mapsto> c\<lparr>elements := remove1 a (elements c)\<rparr>),
         trace := trace w @ release_calls env (sysfs_base c) (name nd),
         errno := 0\<rparr>)"
    apply (subst w2)
    using assms
    by (simp add: upisnd_elements_remove_def upisnd_elements_free_def)
  show ?thesis
    using assms rm by (simp add: upisnd_element_unref_def Let_def)
qed

lemma unref_nonzero:
  assumes "nodes w a = Some nd" "refcount nd \<noteq> 1"
  shows "upisnd_element_unref env (Some (Some a)) w =
     Some (Some None, w\<lparr>nodes := (nodes w)(a \<mapsto> nd\<lparr>refcount := refcount nd - 1\<rparr>)\<rparr>)"
  using assms by (simp add: upisnd_element_unref_def Let_def)

text \<open>
  Claim C2, as the code has it.  For a live handle that its context lists, in a well-formed
  registry: the
  unref that takes the reference count from 1 to 0 frees the node, takes it off the list,
  and makes the calls of one release on the unsetup file and no other call; those calls
  hold exactly one write, of the element's name, whenever the unsetup file can be opened
  (none when its path does not fit or \<open>open\<close> fails), so never more than one.  An unref
  from any other count only lowers the count: the trace, and with it the driver, sees
  nothing.
\<close>

theorem C2_release_on_zero_crossing:
  assumes "nodes w a = Some nd" and "ctxs w (ctx nd) = Some c"
    and "registry_ok w (ctx nd)" and "a \<in> set (elements c)"
  shows
    "(refcount nd = 1 \<longrightarrow>
        upisnd_element_unref env (Some (Some a)) w =
          Some (Some None,
            w\<lparr>nodes := (nodes w)(a := None),
              ctxs := (ctxs w)(ctx nd \<mapsto> c\<lparr>elements := remove1 a (elements c)\<rparr>),
              trace := trace w @ release_calls env (sysfs_base c) (name nd),
              errno := 0\<rparr>)
        \<and> a \<notin> set (remove1 a (elements c))
        \<and> writes_of (release_calls env (sysfs_base c) (name nd))
            = (if path_fits UPISND_PATH_UNSETUP (sysfs_base c)
                  \<and> env_open env (unsetup_file (sysfs_base c)) = 0
               then [(unsetup_file (sysfs_base c), name nd)] else []))
     \<and> (refcount nd \<noteq> 1 \<longrightarrow>
        upisnd_element_unref env (Some (Some a)) w =
          Some (Some None, w\<lparr>nodes := (nodes w)(a \<mapsto> nd\<lparr>refcount := refcount nd - 1\<rparr>)\<rparr>))"
proof -
  have "distinct (elements c)"
    using assms(2,3) by (simp add: registry_ok_def)
  then have "a \<notin> set (remove1 a (elements c))" by simp
  then show ?thesis
    using unref_zero[OF assms(1,2,4), of env] unref_nonzero[OF assms(1), of env]
      writes_of_release_calls[of env "sysfs_base c" "name nd"]
    by simp
qed


text \<open>
  Claim C2 as it is stated fails when the unsetup file cannot be opened: the unref that
  takes the count of the only reference to 0 unlinks and frees the node, and the one call
  it makes is the failed \<open>open\<close>; no release request is written.
\<close>

theorem C2_release_not_written_counterexample:
  "nodes (world_with_element ''gpio1'') 1 = Some \<lparr>refcount = 1, name = ''gpio1'', ctx = 0\<rparr>
   \<and> env_open env_open_denied ''/sys/pisound-micro/unsetup'' = nat EACCES
   \<and> upisnd_element_unref env_open_denied (Some (Some 1)) (world_with_element ''gpio1'')
       = Some (Some None, initial_world\<lparr>trace := [Sys_open ''/sys/pisound-micro/unsetup'']\<rparr>)
   \<and> writes_of [Sys_open ''/sys/pisound-micro/unsetup''] = []"
  by (simp add: world_with_element_def initial_world_def default_ctx_def
      upisnd_element_unref_def upisnd_unsetup_do_def upisnd_path_def sys_def
      upisnd_elements_remove_def upisnd_elements_free_def env_open_denied_def nominal_env_def
      writes_of_def Let_def upisnd_consts UPISND_SYSFS_DEFAULT_BASE_PATH_def)

lemma release_calls_nominal:
  "release_calls (nominal_env\<lparr>env_malloc := m\<rparr>) UPISND_SYSFS_DEFAULT_BASE_PATH nm
     = transaction_calls ''/sys/pisound-micro/unsetup'' nm"
  by (simp add: release_calls_def default_paths transaction_ok_trace nominal_transaction_ok)

theorem C2_release_on_zero_crossing_witness:
  "nodes (world_with_element ''gpio1'') 1 = Some \<lparr>refcount = 1, name = ''gpio1'', ctx = 0\<rparr>
   \<and> ctxs (world_with_element ''gpio1'') 0 = Some (default_ctx [1])
   \<and> registry_ok (world_with_element ''gpio1'') 0
   \<and> upisnd_element_unref nominal_env (Some (Some 1)) (world_with_element ''gpio1'')
       = Some (Some None,
           initial_world\<lparr>trace := transaction_calls ''/sys/pisound-micro/unsetup'' ''gpio1''\<rparr>)
   \<and> writes_of (release_calls nominal_env UPISND_SYSFS_DEFAULT_BASE_PATH ''gpio1'')
       = [(''/sys/pisound-micro/unsetup'', ''gpio1'')]
   \<and> upisnd_element_unref nominal_env (Some (Some 1))
        ((world_with_element ''gpio1'')
           \<lparr>nodes := [1 \<mapsto> \<lparr>refcount = 2, name = ''gpio1'', ctx = 0\<rparr>]\<rparr>)
       = Some (Some None, world_with_element ''gpio1'')"
proof -
  let ?w = "world_with_element ''gpio1''"
  let ?nd = "\<lparr>refcount = 1, name = ''gpio1'', ctx = 0\<rparr>"
  let ?w2 = "?w\<lparr>nodes := [1 \<mapsto> \<lparr>refcount = 2, name = ''gpio1'', ctx = 0\<rparr>]\<rparr>"
  have c: "ctxs ?w (ctx ?nd) = Some (default_ctx [1])" "registry_ok ?w (ctx ?nd)"
    "1 \<in> set (elements (default_ctx [1]))"
    by (simp_all add: world_with_element_ok default_ctx_def)
  have n2: "nodes ?w2 1 = Some \<lparr>refcount = 2, name = ''gpio1'', ctx = 0\<rparr>"
    "ctxs ?w2 (ctx \<lparr>refcount = 2, name = ''gpio1'', ctx = 0\<rparr>) = Some (default_ctx [1])"
    "registry_ok ?w2 (ctx \<lparr>refcount = 2, name = ''gpio1'', ctx = 0\<rparr>)"
    by (simp_all add: world_with_element_def registry_ok_def default_ctx_def)
  have r: "release_calls nominal_env UPISND_SYSFS_DEFAULT_BASE_PATH ''gpio1''
      = transaction_calls ''/sys/pisound-micro/unsetup'' ''gpio1''"
    using release_calls_nominal[of "env_malloc nominal_env" "''gpio1''"] by simp
  show ?thesis
    using C2_release_on_zero_crossing[OF world_with_element_live(1)[of "''gpio1''"] c,
        of nominal_env]
      C2_release_on_zero_crossing[OF n2 c(3), of nominal_env]
      world_with_element_ok[of "''gpio1''"] world_with_element_live(1)[of "''gpio1''"]
    by (simp add: r default_ctx_def default_paths writes_of_def transaction_calls_def
        world_with_element_def initial_world_def)
qed

subsection \<open>A setup that fails\<close>

lemma commit_fail_fresh:
  assumes "transaction_error env path payload \<noteq> 0"
  shows "upisnd_setup_do_commit env path payload a False existed w =
     Some (None, w\<lparr>nodes := (nodes w)(a := None),
                   trace := trace w @ transaction_trace env path payload,
                   errno := int (transaction_error env path payload)\<rparr>)"
  using assms
  by (simp add: upisnd_setup_do_commit_def write_sync_close_def sys_def Let_def
      transaction_error_def transaction_trace_def upisnd_elements_free_def split: if_splits)

lemma commit_fail_existing:
  assumes "transaction_error env path payload \<noteq> 0" "nodes w a = Some nd" "refcount nd \<noteq> 1"
  shows "upisnd_setup_do_commit env path payload a True False w =
     Some (None, w\<lparr>nodes := (nodes w)(a \<mapsto> nd\<lparr>refcount := refcount nd - 1\<rparr>),
                   trace := trace w @ transaction_trace env path payload,
                   errno := int (transaction_error env path payload)\<rparr>)"
  using assms
  by (simp add: upisnd_setup_do_commit_def write_sync_close_def sys_def Let_def
      transaction_error_def transaction_trace_def upisnd_element_unref_def split: if_splits)

lemma setup_do_fail_fresh:
  assumes reg: "upisnd_active_ctx w = Some ca" "registry_ok w ca" "ctxs w ca = Some c"
    "Some nm \<notin> set (registered_names w c)"
    "0 \<le> upisnd_validate_element_name (Some nm)"
    and fits: "path_fits UPISND_PATH_SETUP (sysfs_base c)" "request_fits nm request"
    and alloc: "env_malloc env = Some a" "nodes w a = None"
    and err: "transaction_error env (setup_file (sysfs_base c)) (nm @ '' '' @ request) \<noteq> 0"
  shows "upisnd_setup_do env nm request w =
          Some (None,
            w\<lparr>trace := trace w @ probe_calls (sysfs_base c) nm
                         @ transaction_trace env (setup_file (sysfs_base c)) (nm @ '' '' @ request),
              errno := int (transaction_error env (setup_file (sysfs_base c))
                              (nm @ '' '' @ request))\<rparr>)"
proof -
  have v: "upisnd_validate_element_name (Some nm) = int (length nm)"
    using validate_valid[OF reg(5) fits(2)] .
  have restore: "(nodes w)(a := None) = nodes w"
    using alloc(2) by (rule fun_upd_idem)
  note commit = commit_fail_fresh[OF err, simplified]
  show ?thesis
    using reg(1,3) fits v alloc(1)
    by (simp add: upisnd_setup_do_def Let_def case_prod_beta path_fits_def request_fits_def
        element_get_miss[OF reg] upisnd_element_alloc_def exists_in_sysfs_effect commit restore
        setup_file_def[symmetric])
qed

lemma setup_do_fail_existing:
  assumes reg: "upisnd_active_ctx w = Some ca" "registry_ok w ca" "ctxs w ca = Some c"
    "a \<in> set (elements c)" "nodes w a = Some nd"
    "0 \<le> upisnd_validate_element_name (Some (name nd))"
    and fits: "path_fits UPISND_PATH_SETUP (sysfs_base c)" "request_fits (name nd) request"
    and err: "transaction_error env (setup_file (sysfs_base c)) (name nd @ '' '' @ request) \<noteq> 0"
  shows "upisnd_setup_do env (name nd) request w =
          Some (None,
            w\<lparr>trace := trace w @ transaction_trace env (setup_file (sysfs_base c))
                                   (name nd @ '' '' @ request),
              errno := int (transaction_error env (setup_file (sysfs_base c))
                              (name nd @ '' '' @ request))\<rparr>)"
proof -
  have v: "upisnd_validate_element_name (Some (name nd)) = int (length (name nd))"
    using validate_valid[OF reg(6) fits(2)] .
  from registry_okD(2)[OF reg(2,3,4)] reg(5) have rc: "1 \<le> sint (refcount nd)" by simp
  let ?nd1 = "nd\<lparr>refcount := refcount nd + 1\<rparr>"
  let ?w1 = "w\<lparr>nodes := (nodes w)(a \<mapsto> ?nd1), errno := 0\<rparr>"
  have n1: "nodes ?w1 a = Some ?nd1" "refcount ?nd1 \<noteq> 1" using rc by auto
  have restore: "(nodes w)(a \<mapsto> nd) = nodes w"
    using reg(5) by (rule fun_upd_idem)
  note commit = commit_fail_existing[OF err n1, simplified]
  show ?thesis
    using reg(1,3) fits v
    by (simp add: upisnd_setup_do_def Let_def case_prod_beta path_fits_def request_fits_def
        element_get_hit[OF reg] commit restore setup_file_def[symmetric])
qed

text \<open>
  Claim C8.  A setup of a valid name whose paths and request fit, in a well-formed
  registry, whose transaction on the setup file fails (\<open>open\<close>, \<open>write\<close>, \<open>fdatasync\<close> or
  \<open>close\<close> answers an error).  When the registry did not hold the name and a node was
  allocated for this call, the call returns NULL and the world afterwards is the world
  before but for the trace and \<open>errno\<close>: the node is freed and was never listed.  When
  the registry held the name, the call returns NULL and again only the trace and \<open>errno\<close>
  differ: the node is listed as before with the reference count it had.  In both cases the
  only file opened is the setup file, so no release is requested, and \<open>errno\<close> is the
  error of the transaction, which is not 0.
\<close>

theorem C8_failed_setup_rolls_back:
  assumes "upisnd_active_ctx w = Some ca" and "registry_ok w ca" and "ctxs w ca = Some c"
    and "0 \<le> upisnd_validate_element_name (Some nm)"
    and "path_fits UPISND_PATH_SETUP (sysfs_base c)" and "request_fits nm request"
    and "\<not> transaction_ok env (setup_file (sysfs_base c)) (nm @ '' '' @ request)"
  shows
    "(Some nm \<notin> set (registered_names w c) \<and> env_malloc env = Some a \<and> nodes w a = None \<longrightarrow>
        upisnd_setup_do env nm request w =
          Some (None,
            w\<lparr>trace := trace w @ probe_calls (sysfs_base c) nm
                         @ transaction_trace env (setup_file (sysfs_base c)) (nm @ '' '' @ request),
              errno := int (transaction_error env (setup_file (sysfs_base c))
                              (nm @ '' '' @ request))\<rparr>)
        \<and> opens_of (probe_calls (sysfs_base c) nm
                    @ transaction_trace env (setup_file (sysfs_base c)) (nm @ '' '' @ request))
            = [setup_file (sysfs_base c)])
     \<and> (b \<in> set (elements c) \<and> nodes w b = Some nd \<and> name nd = nm \<longrightarrow>
        upisnd_setup_do env nm request w =
          Some (None,
            w\<lparr>trace := trace w @ transaction_trace env (setup_file (sysfs_base c))
                                   (nm @ '' '' @ request),
              errno := int (transaction_error env (setup_file (sysfs_base c))
                              (nm @ '' '' @ request))\<rparr>)
        \<and> opens_of (transaction_trace env (setup_file (sysfs_base c)) (nm @ '' '' @ request))
            = [setup_file (sysfs_base c)])
     \<and> transaction_error env (setup_file (sysfs_base c)) (nm @ '' '' @ request) \<noteq> 0"
proof -
  have err: "transaction_error env (setup_file (sysfs_base c)) (nm @ '' '' @ request) \<noteq> 0"
    using assms(7) by (simp add: transaction_ok_error)
  have p: "opens_of (probe_calls (sysfs_base c) nm) = []"
    by (simp add: probe_calls_def opens_of_def)
  show ?thesis
    using setup_do_fail_fresh[OF assms(1,2,3) _ assms(4,5,6) _ _ err, of a]
      setup_do_fail_existing[OF assms(1,2,3), of b nd request env] assms(4,5,6) err
    by (auto simp: opens_of_transaction_trace p)
qed


lemma initial_world_ok:
  "upisnd_active_ctx initial_world = Some 0"
  "registry_ok initial_world 0"
  "ctxs initial_world 0 = Some (default_ctx [])"
  by (simp_all add: initial_world_def registry_ok_def default_ctx_def)

theorem C8_failed_setup_rolls_back_witness:
  "\<not> transaction_ok (env_write_error 5) ''/sys/pisound-micro/setup'' ''gpio1 gpio B03 output 1''
   \<and> Some ''gpio1'' \<notin> set (registered_names initial_world (default_ctx []))
   \<and> env_malloc (env_write_error 5) = Some 1 \<and> nodes initial_world 1 = None
   \<and> upisnd_setup_do (env_write_error 5) ''gpio1'' ''gpio B03 output 1'' initial_world
       = Some (None, initial_world
           \<lparr>trace := [Sys_stat ''/sys/pisound-micro/elements/gpio1/'',
                      Sys_open ''/sys/pisound-micro/setup'',
                      Sys_write ''/sys/pisound-micro/setup'' ''gpio1 gpio B03 output 1'',
                      Sys_close ''/sys/pisound-micro/setup''],
            errno := 5\<rparr>)
   \<and> nodes (world_with_element ''gpio1'') 1 = Some \<lparr>refcount = 1, name = ''gpio1'', ctx = 0\<rparr>
   \<and> upisnd_setup_do (env_write_error 5) ''gpio1'' ''gpio B03 output 1''
        (world_with_element ''gpio1'')
       = Some (None, (world_with_element ''gpio1'')
           \<lparr>trace := [Sys_open ''/sys/pisound-micro/setup'',
                      Sys_write ''/sys/pisound-micro/setup'' ''gpio1 gpio B03 output 1'',
                      Sys_close ''/sys/pisound-micro/setup''],
            errno := 5\<rparr>)"
proof -
  let ?env = "env_write_error 5"
  have v: "0 \<le> upisnd_validate_element_name (Some ''gpio1'')"
    by (simp add: upisnd_validate_element_name_def upisnd_consts strlen_int_length)
  have r: "request_fits ''gpio1'' ''gpio B03 output 1''"
    by (simp add: request_fits_def upisnd_consts)
  have b: "sysfs_base (default_ctx els) = UPISND_SYSFS_DEFAULT_BASE_PATH" for els
    by (simp add: default_ctx_def)
  have f: "path_fits UPISND_PATH_SETUP (sysfs_base (default_ctx els))" for els
    by (simp add: b default_paths)
  have t: "\<not> transaction_ok ?env (setup_file (sysfs_base (default_ctx els)))
      (''gpio1'' @ '' '' @ ''gpio B03 output 1'')" for els
    by (simp add: transaction_ok_def env_write_error_def nominal_env_def)
  have h: "Some ''gpio1'' \<notin> set (registered_names initial_world (default_ctx []))"
    "env_malloc ?env = Some 1" "nodes initial_world 1 = None"
    "nodes (world_with_element ''gpio1'') 1 = Some \<lparr>refcount = 1, name = ''gpio1'', ctx = 0\<rparr>"
    by (simp_all add: registered_names_def default_ctx_def env_write_error_def nominal_env_def
        initial_world_def world_with_element_def)
  have e: "transaction_error ?env ''/sys/pisound-micro/setup'' d = 5"
    "transaction_trace ?env ''/sys/pisound-micro/setup'' d
      = [Sys_open ''/sys/pisound-micro/setup'', Sys_write ''/sys/pisound-micro/setup'' d,
         Sys_close ''/sys/pisound-micro/setup'']" for d
    by (simp_all add: transaction_error_def transaction_trace_def env_write_error_def
        nominal_env_def)
  have p: "probe_calls UPISND_SYSFS_DEFAULT_BASE_PATH ''gpio1''
      = [Sys_stat ''/sys/pisound-micro/elements/gpio1/'']"
    by (simp add: probe_calls_def upisnd_element_path_def UPISND_SYSFS_DEFAULT_BASE_PATH_def
        upisnd_consts)
  show ?thesis
    using C8_failed_setup_rolls_back[OF initial_world_ok v f r t, of 1]
      C8_failed_setup_rolls_back[OF world_with_element_ok(1)[of "''gpio1''"]
        world_with_element_ok(2)[of "''gpio1''"] world_with_element_ok(3)[of "''gpio1''"] v f r t,
        where b = 1 and nd = "\<lparr>refcount = 1, name = ''gpio1'', ctx = 0\<rparr>"]
      h t[of "[]"]
    by (simp add: b default_paths e p default_ctx_def initial_world_def world_with_element_def)
qed

subsection \<open>Wire payloads\<close>




























subsection \<open>NULL handles\<close>

text \<open>
  What the operations modelled here do with a NULL handle: opening an attribute, and with
  it opening the value file and reading an attribute, fails with -1 and \<open>EINVAL\<close> and
  makes no system call; \<open>upisnd_element_get_name\<close> returns NULL;
  \<open>upisnd_element_get_pin\<close> returns the invalid pin with \<open>EINVAL\<close>; \<open>add_ref\<close> and \<open>unref\<close>
  of a NULL pointer or of a pointer to a NULL handle change nothing.
\<close>

lemma null_handle_operations:
  "upisnd_element_attr_open env attr None w = Some (- 1, w\<lparr>errno := EINVAL\<rparr>)"
  "upisnd_element_open_value_fd env None w = Some (- 1, w\<lparr>errno := EINVAL\<rparr>)"
  "upisnd_element_attr_read_int env attr None w = Some (- 1, w\<lparr>errno := EINVAL\<rparr>)"
  "2 \<le> n \<Longrightarrow> upisnd_element_attr_read_str env (Some buf) n attr None w
     = Some ((- 1, Some buf), w\<lparr>errno := EINVAL\<rparr>)"
  "upisnd_element_get_name None w = Some None"
  "upisnd_element_get_pin env None w = Some (UPISND_PIN_INVALID, w\<lparr>errno := EINVAL\<rparr>)"
  "upisnd_element_add_ref None w = Some (None, w)"
  "upisnd_element_unref env None w = Some (None, w)"
  "upisnd_element_unref env (Some None) w = Some (Some None, w)"
  by (simp_all add: upisnd_element_attr_open_def upisnd_element_open_value_fd_def
      upisnd_element_attr_read_int_def upisnd_element_attr_read_str_def
      upisnd_element_get_name_def upisnd_element_get_pin_def upisnd_element_add_ref_def
      upisnd_element_unref_def)

text \<open>
  Claim C10 says that every getter called with a NULL handle returns its invalid sentinel
  with \<open>errno\<close> set to \<open>EINVAL\<close>.  \<open>upisnd_element_get_type\<close> does not: with a NULL
  handle it returns \<open>UPISND_ELEMENT_TYPE_INVALID\<close> and leaves the world, \<open>errno\<close>
  included, as it was, here 0, while \<open>upisnd_element_get_pin\<close> in the same world sets
  \<open>EINVAL\<close>.
\<close>

theorem C10_get_type_of_NULL_leaves_errno:
  "upisnd_element_get_type env None (w\<lparr>errno := 0\<rparr>)
     = Some (UPISND_ELEMENT_TYPE_INVALID, w\<lparr>errno := 0\<rparr>)
   \<and> upisnd_element_get_pin env None (w\<lparr>errno := 0\<rparr>)
     = Some (UPISND_PIN_INVALID, w\<lparr>errno := EINVAL\<rparr>)
   \<and> EINVAL \<noteq> 0"
  by (simp add: upisnd_element_get_type_def upisnd_element_get_pin_def upisnd_consts)

subsection \<open>The registry stays well-formed\<close>

text \<open>
  Well-formedness of the registry, which the properties above assume, is kept by every
  operation that returns: a lookup that hits and a setup of a registered name, as long as
  the reference count is below \<open>INT_MAX\<close> (at \<open>INT_MAX\<close> the increment wraps to a
  negative count), a setup of a new name, and an unref of a listed handle, whether it
  releases the element or not.  The world with a context and no element is well-formed
  (\<open>initial_world_ok\<close>).
\<close>

lemma registry_okI:
  assumes "ctxs w ca = Some c" "distinct (elements c)"
    "\<And>a. a \<in> set (elements c) \<Longrightarrow> \<exists>nd. nodes w a = Some nd \<and> ctx nd = ca \<and> 1 \<le> sint (refcount nd)"
    "distinct (map (\<lambda>a. map_option name (nodes w a)) (elements c))"
  shows "registry_ok w ca"
proof -
  have "list_all (\<lambda>a. case nodes w a of None \<Rightarrow> False
                        | Some nd \<Rightarrow> ctx nd = ca \<and> 1 \<le> sint (refcount nd)) (elements c)"
    unfolding list_all_iff
  proof
    fix a assume "a \<in> set (elements c)"
    from assms(3)[OF this] show "case nodes w a of None \<Rightarrow> False
                        | Some nd \<Rightarrow> ctx nd = ca \<and> 1 \<le> sint (refcount nd)"
      by auto
  qed
  then show ?thesis using assms(1,2,4) by (simp add: registry_ok_def)
qed

lemma registry_ok_recount:
  assumes ok: "registry_ok w ca" "ctxs w ca = Some c"
    and a: "nodes w a = Some nd" "1 \<le> sint r"
  shows "registry_ok (w\<lparr>nodes := (nodes w)(a \<mapsto> nd\<lparr>refcount := r\<rparr>), trace := tr, errno := e\<rparr>) ca"
proof (rule registry_okI)
  let ?h = "(nodes w)(a \<mapsto> nd\<lparr>refcount := r\<rparr>)"
  let ?w = "w\<lparr>nodes := ?h, trace := tr, errno := e\<rparr>"
  note d = registry_okD[OF ok]
  show "ctxs ?w ca = Some c" using ok(2) by simp
  show "distinct (elements c)" by (rule d(1))
  show "\<exists>nd. nodes ?w b = Some nd \<and> ctx nd = ca \<and> 1 \<le> sint (refcount nd)"
    if "b \<in> set (elements c)" for b
    using d(2)[OF that] a by (cases "b = a") auto
  have "map_option name (?h b) = map_option name (nodes w b)" for b
    using a(1) by simp
  then have "map (\<lambda>b. map_option name (nodes ?w b)) (elements c)
      = map (\<lambda>b. map_option name (nodes w b)) (elements c)"
    by simp
  then show "distinct (map (\<lambda>b. map_option name (nodes ?w b)) (elements c))"
    using d(3) by (simp only:)
qed

lemma registry_ok_released:
  assumes ok: "registry_ok w ca" "ctxs w ca = Some c"
  shows "registry_ok (w\<lparr>nodes := (nodes w)(a := None),
            ctxs := (ctxs w)(ca \<mapsto> c\<lparr>elements := remove1 a (elements c)\<rparr>),
            trace := tr, errno := e\<rparr>) ca"
proof (rule registry_okI)
  let ?c = "c\<lparr>elements := remove1 a (elements c)\<rparr>"
  let ?w = "w\<lparr>nodes := (nodes w)(a := None), ctxs := (ctxs w)(ca \<mapsto> ?c), trace := tr, errno := e\<rparr>"
  note d = registry_okD[OF ok]
  have gone: "a \<notin> set (elements ?c)" using d(1) by simp
  have sub: "b \<in> set (elements c)" if "b \<in> set (elements ?c)" for b
    using that set_remove1_subset[of a "elements c"] by auto
  show "ctxs ?w ca = Some ?c" by simp
  show "distinct (elements ?c)" using d(1) by simp
  show "\<exists>nd. nodes ?w b = Some nd \<and> ctx nd = ca \<and> 1 \<le> sint (refcount nd)"
    if "b \<in> set (elements ?c)" for b
    using d(2)[OF sub[OF that]] that gone by (cases "b = a") auto
  have same: "map (\<lambda>b. map_option name (nodes ?w b)) (elements ?c)
      = map (\<lambda>b. map_option name (nodes w b)) (elements ?c)"
    by (rule map_cong[OF refl]) (use gone in auto)
  have "distinct (map (\<lambda>b. map_option name (nodes w b)) (elements ?c))"
    using d(1,3)
    by (simp add: distinct_remove1_removeAll removeAll_filter_not_eq distinct_map_filter)
  then show "distinct (map (\<lambda>b. map_option name (nodes ?w b)) (elements ?c))"
    unfolding same .
qed


lemma registry_ok_frame [simp]:
  "registry_ok (w\<lparr>trace := tr\<rparr>) ca = registry_ok w ca"
  "registry_ok (w\<lparr>errno := e\<rparr>) ca = registry_ok w ca"
  "registry_ok (w\<lparr>clock_ms := t\<rparr>) ca = registry_ok w ca"
  by (simp_all add: registry_ok_def cong: option.case_cong)

lemma get_keeps_registry_ok:
  assumes "upisnd_active_ctx w = Some ca" "registry_ok w ca" "ctxs w ca = Some c"
    "a \<in> set (elements c)" "nodes w a = Some nd"
    "0 \<le> upisnd_validate_element_name (Some (name nd))"
    and "upisnd_element_get (name nd) w = Some (h, w')"
    and "sint (refcount nd) < INT_MAX"
  shows "registry_ok w' ca"
proof -
  from registry_okD(2)[OF assms(2,3,4)] assms(5,8) have r: "1 \<le> sint (refcount nd + 1)"
    by (simp add: sint_succ INT_MAX_def)
  have "w' = w\<lparr>nodes := (nodes w)(a \<mapsto> nd\<lparr>refcount := refcount nd + 1\<rparr>), errno := 0\<rparr>"
    using assms(7) by (simp add: element_get_hit[OF assms(1-6)])
  then show ?thesis
    using registry_ok_recount[OF assms(2,3,5) r, where tr = "trace w" and e = 0] by simp
qed

lemma attach_keeps_registry_ok:
  assumes "upisnd_active_ctx w = Some ca" "registry_ok w ca" "ctxs w ca = Some c"
    "a \<in> set (elements c)" "nodes w a = Some nd"
    "0 \<le> upisnd_validate_element_name (Some (name nd))"
    "path_fits UPISND_PATH_SETUP (sysfs_base c)" "request_fits (name nd) request"
    "transaction_ok env (setup_file (sysfs_base c)) (name nd @ '' '' @ request)"
    and "upisnd_setup_do env (name nd) request w = Some (h, w')"
    and "sint (refcount nd) < INT_MAX"
  shows "registry_ok w' ca"
proof -
  from registry_okD(2)[OF assms(2,3,4)] assms(5,11) have r: "1 \<le> sint (refcount nd + 1)"
    by (simp add: sint_succ INT_MAX_def)
  have "w' = w\<lparr>nodes := (nodes w)(a \<mapsto> nd\<lparr>refcount := refcount nd + 1\<rparr>),
                 trace := trace w @ transaction_calls (setup_file (sysfs_base c))
                            (name nd @ '' '' @ request),
                 errno := EEXIST\<rparr>"
    using assms(10) by (simp add: setup_do_existing[OF assms(1-9)])
  then show ?thesis
    using registry_ok_recount[OF assms(2,3,5) r] by simp
qed

lemma fresh_setup_keeps_registry_ok:
  assumes "upisnd_active_ctx w = Some ca" "registry_ok w ca" "ctxs w ca = Some c"
    "Some nm \<notin> set (registered_names w c)"
    "0 \<le> upisnd_validate_element_name (Some nm)"
    "path_fits UPISND_PATH_SETUP (sysfs_base c)" "request_fits nm request"
    "env_malloc env = Some a"
    "transaction_ok env (setup_file (sysfs_base c)) (nm @ '' '' @ request)"
    and "nodes w a = None"
    and "upisnd_setup_do env nm request w = Some (h, w')"
  shows "registry_ok w' ca"
proof -
  have "w' = w\<lparr>nodes := (nodes w)(a \<mapsto> \<lparr>refcount = 1, name = nm, ctx = ca\<rparr>),
              trace := trace w @ probe_calls (sysfs_base c) nm
                         @ transaction_calls (setup_file (sysfs_base c)) (nm @ '' '' @ request),
              ctxs := (ctxs w)(ca \<mapsto> c\<lparr>elements := a # elements c\<rparr>),
              errno := (if probe_result env (sysfs_base c) nm then EEXIST else 0)\<rparr>"
    using assms(11) by (simp add: setup_do_fresh[OF assms(1-9)])
  then show ?thesis
    using registry_ok_after_fresh[OF assms(2,3,10,4)] by simp
qed

lemma unref_keeps_registry_ok:
  assumes "nodes w a = Some nd" "ctxs w (ctx nd) = Some c" "registry_ok w (ctx nd)"
    "a \<in> set (elements c)"
    and "upisnd_element_unref env (Some (Some a)) w = Some (r, w')"
  shows "registry_ok w' (ctx nd)"
proof (cases "refcount nd = 1")
  case True
  have "w' = w\<lparr>nodes := (nodes w)(a := None),
         ctxs := (ctxs w)(ctx nd \<mapsto> c\<lparr>elements := remove1 a (elements c)\<rparr>),
         trace := trace w @ release_calls env (sysfs_base c) (name nd),
         errno := 0\<rparr>"
    using assms(5) by (simp add: unref_zero[OF assms(1,2,4) True])
  then show ?thesis
    using registry_ok_released[OF assms(3,2)] by simp
next
  case False
  from registry_okD(2)[OF assms(3,2,4)] assms(1) have "1 \<le> sint (refcount nd)" by simp
  moreover have "sint (refcount nd) \<noteq> 1" using False word32_of_sint[of "refcount nd" 1] by auto
  ultimately have r: "1 \<le> sint (refcount nd - 1)" by (simp add: sint_pred)
  have "w' = w\<lparr>nodes := (nodes w)(a \<mapsto> nd\<lparr>refcount := refcount nd - 1\<rparr>)\<rparr>"
    using assms(5) by (simp add: unref_nonzero[OF assms(1) False])
  then show ?thesis
    using registry_ok_recount[OF assms(3,2,1) r, where tr = "trace w" and e = "errno w"]
    by simp
qed

end
